theory Spec2Isabelle
  imports Complex_Main "HOL-Library.Word"
begin

section \<open>SceneManager: textures, materials, transformations and the scene\<close>

text \<open>
  A shallow embedding of \<^verbatim>\<open>Source/SceneManager.cpp\<close>. The members of the
  \<^verbatim>\<open>SceneManager\<close> object are the fields of a record; every call the class makes on
  one of its collaborators (the shader manager, the mesh library, OpenGL) is appended to
  a chronological log kept in the same record. Undefined behaviour of the C++ code (a
  dereferenced null pointer, an array subscript outside the array) is a value of the
  type \<open>error\<close>. C++ \<^verbatim>\<open>float\<close> values are modelled as real numbers: rounding is
  not modelled, so the entries of a matrix are those of exact arithmetic and no statement
  depends on their values. Console output is not modelled. The \<^verbatim>\<open>int\<close> counters are integers
  without a width: \<open>m_loadedTextures\<close> is incremented only after a store inside the
  array, and the loop indices stay below a count or a size, so none of them overflows.
  The constructor, the destructor, \<^verbatim>\<open>FindTextureID\<close> and \<^verbatim>\<open>DestroyGLTextures\<close>,
  which no statement below is about, are left out.
\<close>

subsection \<open>Vectors and matrices (the parts of GLM the class calls)\<close>

text \<open>
  GLM is an external library. Its vectors are tuples here, and a \<^verbatim>\<open>mat4\<close> is the
  tuple of its four columns, as GLM stores it (column-major).
\<close>

type_synonym vec2 = "real \<times> real"
type_synonym vec3 = "real \<times> real \<times> real"
type_synonym vec4 = "real \<times> real \<times> real \<times> real"
type_synonym mat4 = "vec4 \<times> vec4 \<times> vec4 \<times> vec4"

fun vec4_times :: "vec4 \<Rightarrow> real \<Rightarrow> vec4" where
  "vec4_times (a, b, c, d) k = (a * k, b * k, c * k, d * k)"

fun vec4_plus :: "vec4 \<Rightarrow> vec4 \<Rightarrow> vec4" where
  "vec4_plus (a, b, c, d) (a', b', c', d') = (a + a', b + b', c + c', d + d')"

text \<open>\<^verbatim>\<open>mat4(1.0f)\<close>\<close>

definition mat4_identity :: mat4 where
  "mat4_identity = ((1, 0, 0, 0), (0, 1, 0, 0), (0, 0, 1, 0), (0, 0, 0, 1))"

text \<open>\<^verbatim>\<open>operator*(mat4, vec4)\<close>: the linear combination of the columns.\<close>

fun mat4_times_vec4 :: "mat4 \<Rightarrow> vec4 \<Rightarrow> vec4" where
  "mat4_times_vec4 (m0, m1, m2, m3) (x, y, z, w) =
     vec4_plus (vec4_plus (vec4_plus (vec4_times m0 x) (vec4_times m1 y)) (vec4_times m2 z))
       (vec4_times m3 w)"

text \<open>\<^verbatim>\<open>operator*(mat4, mat4)\<close>: column \<open>j\<close> of the product is the left matrix applied
  to column \<open>j\<close> of the right one.\<close>

fun mat4_times :: "mat4 \<Rightarrow> mat4 \<Rightarrow> mat4" where
  "mat4_times m (c0, c1, c2, c3) =
     (mat4_times_vec4 m c0, mat4_times_vec4 m c1, mat4_times_vec4 m c2, mat4_times_vec4 m c3)"

text \<open>\<^verbatim>\<open>glm::radians\<close>: degrees times \<open>\<pi> / 180\<close>, here over the reals; the code
  multiplies by the constant as a \<^verbatim>\<open>float\<close> and rounds the product.\<close>

definition glm_radians :: "real \<Rightarrow> real" where
  "glm_radians degrees = degrees * (pi / 180)"

text \<open>\<^verbatim>\<open>glm::normalize\<close>: the vector times the inverse square root of its dot product
  with itself.\<close>

fun glm_normalize :: "vec3 \<Rightarrow> vec3" where
  "glm_normalize (x, y, z) =
     (let k = 1 / sqrt (x * x + y * y + z * z) in (x * k, y * k, z * k))"

text \<open>\<^verbatim>\<open>glm::scale(m, v)\<close> and the one-argument form of \<^verbatim>\<open>glm/gtx/transform.hpp\<close>,
  which passes the identity for \<open>m\<close>.\<close>

fun glm_scale_m :: "mat4 \<Rightarrow> vec3 \<Rightarrow> mat4" where
  "glm_scale_m (m0, m1, m2, m3) (x, y, z) = (vec4_times m0 x, vec4_times m1 y, vec4_times m2 z, m3)"

definition glm_scale :: "vec3 \<Rightarrow> mat4" where
  "glm_scale v = glm_scale_m mat4_identity v"

text \<open>\<^verbatim>\<open>glm::translate(m, v)\<close> and its one-argument form.\<close>

fun glm_translate_m :: "mat4 \<Rightarrow> vec3 \<Rightarrow> mat4" where
  "glm_translate_m (m0, m1, m2, m3) (x, y, z) =
     (m0, m1, m2,
      vec4_plus (vec4_plus (vec4_plus (vec4_times m0 x) (vec4_times m1 y)) (vec4_times m2 z)) m3)"

definition glm_translate :: "vec3 \<Rightarrow> mat4" where
  "glm_translate v = glm_translate_m mat4_identity v"

text \<open>\<^verbatim>\<open>glm::rotate(m, angle, v)\<close>: the axis is normalised, the 3x3 rotation is built
  from the cosine and sine of the angle, and the first three columns of \<open>m\<close> are combined
  with it; the one-argument form passes the identity for \<open>m\<close>. The cosine, the sine and
  the arithmetic are those of the reals here, and rounded \<^verbatim>\<open>float\<close> operations in the
  code.\<close>

fun glm_rotate_m :: "mat4 \<Rightarrow> real \<Rightarrow> vec3 \<Rightarrow> mat4" where
  "glm_rotate_m (m0, m1, m2, m3) angle v =
     (let c = cos angle; s = sin angle;
          (ax, ay, az) = glm_normalize v;
          (tx, ty, tz) = ((1 - c) * ax, (1 - c) * ay, (1 - c) * az);
          r00 = c + tx * ax; r01 = tx * ay + s * az; r02 = tx * az - s * ay;
          r10 = ty * ax - s * az; r11 = c + ty * ay; r12 = ty * az + s * ax;
          r20 = tz * ax + s * ay; r21 = tz * ay - s * ax; r22 = c + tz * az
      in (vec4_plus (vec4_plus (vec4_times m0 r00) (vec4_times m1 r01)) (vec4_times m2 r02),
          vec4_plus (vec4_plus (vec4_times m0 r10) (vec4_times m1 r11)) (vec4_times m2 r12),
          vec4_plus (vec4_plus (vec4_times m0 r20) (vec4_times m1 r21)) (vec4_times m2 r22),
          m3))"

definition glm_rotate :: "real \<Rightarrow> vec3 \<Rightarrow> mat4" where
  "glm_rotate angle v = glm_rotate_m mat4_identity angle v"

subsection \<open>The data of the class and of its collaborators\<close>

type_synonym GLuint = "32 word"

text \<open>An entry of \<^verbatim>\<open>m_textureIDs\<close>.\<close>

record TEXTURE_INFO =
  ID :: GLuint
  tag :: string

text \<open>An entry of \<^verbatim>\<open>m_objectMaterials\<close>, with the fields the class reads and writes.\<close>

record OBJECT_MATERIAL =
  diffuseColor :: vec3
  specularColor :: vec3
  shininess :: real
  tag :: string

text \<open>The value of a uniform write, by the setter of the shader manager that was called.
  \<^verbatim>\<open>setIntValue\<close> is called with \<^verbatim>\<open>false\<close> and \<^verbatim>\<open>true\<close>, which C++ converts to
  0 and 1.\<close>

datatype uniform_value =
    Mat4Value mat4
  | IntValue int
  | Vec4Value vec4
  | Sampler2DValue int
  | Vec2Value vec2
  | Vec3Value vec3
  | FloatValue real

text \<open>\<^verbatim>\<open>ShapeMeshes::BoxSide\<close>, the sides the scene draws.\<close>

datatype BoxSide = side_back | side_bottom | side_left | side_right | side_top | side_front

text \<open>The draw calls on \<^verbatim>\<open>m_basicMeshes\<close>. \<^verbatim>\<open>DrawCylinderMesh\<close> is called with no
  argument (\<open>None\<close>) and with three flags.\<close>

datatype mesh_draw =
    DrawPlaneMesh
  | DrawBoxMesh
  | DrawSphereMesh
  | DrawCylinderMesh "(bool \<times> bool \<times> bool) option"
  | DrawBoxMeshSide BoxSide
  | DrawTorusMesh
  | DrawHalfSphereMesh

text \<open>The load calls on \<^verbatim>\<open>m_basicMeshes\<close>.\<close>

datatype mesh_load =
    LoadBoxMesh
  | LoadPlaneMesh
  | LoadCylinderMesh
  | LoadConeMesh
  | LoadPrismMesh
  | LoadPyramid4Mesh
  | LoadSphereMesh
  | LoadTaperedCylinderMesh
  | LoadTorusMesh

datatype gl_format = GL_RGB8_RGB | GL_RGBA8_RGBA

text \<open>The OpenGL calls of \<^verbatim>\<open>CreateGLTexture\<close> and \<^verbatim>\<open>BindGLTextures\<close>, with the
  arguments that vary: the texture name, the parameter and its value, the format with the
  width and height, and the texture unit as its offset from \<^verbatim>\<open>GL_TEXTURE0\<close>.\<close>

datatype gl_call =
    glGenTextures GLuint
  | glBindTexture GLuint
  | glTexParameteri string string
  | glTexImage2D gl_format int int
  | glGenerateMipmap
  | glActiveTexture int

text \<open>One entry of the log: a uniform written through \<^verbatim>\<open>m_pShaderManager\<close>, a draw
  or load call on \<^verbatim>\<open>m_basicMeshes\<close>, or an OpenGL call.\<close>

datatype event =
    UniformWrite string uniform_value
  | Draw mesh_draw
  | Load mesh_load
  | GL gl_call

datatype ShaderManager_ptr = NULL | ShaderManager_object

datatype error = NullPointerDereference | ArrayIndexOutOfBounds

text \<open>
  The state. \<open>m_textureIDs\<close> is a fixed-size array (its size is declared in the header,
  which is not part of the sources at hand): the list has the length of the array and is
  only updated in place. \<open>gl_generated\<close> is the last texture name OpenGL handed out;
  \<^verbatim>\<open>glGenTextures\<close> is modelled as handing out the next one.
\<close>

record SceneManager =
  m_pShaderManager :: ShaderManager_ptr
  m_textureIDs :: "TEXTURE_INFO list"
  m_loadedTextures :: int
  m_objectMaterials :: "OBJECT_MATERIAL list"
  gl_generated :: GLuint
  calls :: "event list"

text \<open>An image file as \<^verbatim>\<open>stbi_load\<close> decodes it; the pixels are not modelled.\<close>

record image =
  width :: int
  height :: int
  colorChannels :: int

text \<open>The file system as seen through \<^verbatim>\<open>stbi_load\<close>: \<open>None\<close> is the null pointer it
  returns for a file it cannot read or decode.\<close>

type_synonym stbi = "string \<Rightarrow> image option"

definition emit :: "event list \<Rightarrow> SceneManager \<Rightarrow> SceneManager" where
  "emit es s = s\<lparr>calls := calls s @ es\<rparr>"

subsection \<open>Texture registry\<close>

text \<open>The uniform names of the anonymous namespace.\<close>

definition g_ModelName :: string where "g_ModelName = ''model''"
definition g_ColorValueName :: string where "g_ColorValueName = ''objectColor''"
definition g_TextureValueName :: string where "g_TextureValueName = ''objectTexture''"
definition g_UseTextureName :: string where "g_UseTextureName = ''bUseTexture''"

text \<open>
  The end of \<^verbatim>\<open>CreateGLTexture\<close>, after the upload: mipmaps, unbinding, and the
  registration of the entry at index \<open>m_loadedTextures\<close> of the array.
\<close>

definition register_texture ::
  "GLuint \<Rightarrow> string \<Rightarrow> SceneManager \<Rightarrow> error + (bool \<times> SceneManager)" where
  "register_texture textureID tg s =
     (let s' = emit [GL glGenerateMipmap, GL (glBindTexture 0)] s
      in if m_loadedTextures s' < 0 \<or> int (length (m_textureIDs s')) \<le> m_loadedTextures s'
         then Inl ArrayIndexOutOfBounds
         else Inr (True,
           s'\<lparr>m_textureIDs :=
                 (m_textureIDs s')[nat (m_loadedTextures s') := \<lparr>ID = textureID, tag = tg\<rparr>],
               m_loadedTextures := m_loadedTextures s' + 1\<rparr>))"

text \<open>
  \<^verbatim>\<open>CreateGLTexture\<close>. After a successful decode the texture object is generated,
  bound and configured; an image with 3 or 4 channels is uploaded and registered, any
  other channel count returns \<^verbatim>\<open>false\<close> at once.
\<close>

definition CreateGLTexture ::
  "stbi \<Rightarrow> string \<Rightarrow> string \<Rightarrow> SceneManager \<Rightarrow> error + (bool \<times> SceneManager)" where
  "CreateGLTexture stbi_load filename tg s =
     (case stbi_load filename of
        Some img \<Rightarrow>
          (let textureID = gl_generated s + 1;
               s' = emit [GL (glGenTextures textureID), GL (glBindTexture textureID),
                          GL (glTexParameteri ''GL_TEXTURE_WRAP_S'' ''GL_REPEAT''),
                          GL (glTexParameteri ''GL_TEXTURE_WRAP_T'' ''GL_REPEAT''),
                          GL (glTexParameteri ''GL_TEXTURE_MIN_FILTER'' ''GL_LINEAR''),
                          GL (glTexParameteri ''GL_TEXTURE_MAG_FILTER'' ''GL_LINEAR'')]
                      (s\<lparr>gl_generated := textureID\<rparr>)
           in if colorChannels img = 3 then
                register_texture textureID tg
                  (emit [GL (glTexImage2D GL_RGB8_RGB (width img) (height img))] s')
              else if colorChannels img = 4 then
                register_texture textureID tg
                  (emit [GL (glTexImage2D GL_RGBA8_RGBA (width img) (height img))] s')
              else Inr (False, s'))
      | None \<Rightarrow> Inr (False, s))"

text \<open>\<^verbatim>\<open>BindGLTextures\<close>: the loop over \<open>i < m_loadedTextures\<close>, from \<open>i\<close> on.\<close>

function BindGLTextures_loop :: "int \<Rightarrow> SceneManager \<Rightarrow> error + SceneManager" where
  "BindGLTextures_loop i s =
     (if i < m_loadedTextures s then
        (if i < 0 \<or> int (length (m_textureIDs s)) \<le> i then Inl ArrayIndexOutOfBounds
         else BindGLTextures_loop (i + 1)
                (emit [GL (glActiveTexture i), GL (glBindTexture (ID (m_textureIDs s ! nat i)))] s))
      else Inr s)"
  by pat_completeness auto
termination
  by (relation "measure (\<lambda>(i, s). nat (m_loadedTextures s - i))") (auto simp: emit_def)

definition BindGLTextures :: "SceneManager \<Rightarrow> error + SceneManager" where
  "BindGLTextures s = BindGLTextures_loop 0 s"

text \<open>
  \<^verbatim>\<open>FindTextureSlot\<close>: the loop state is \<open>(textureSlot, index, bFound)\<close>; the loop runs
  while \<open>index < m_loadedTextures\<close> and \<open>bFound\<close> is false.
\<close>

function FindTextureSlot_loop ::
  "TEXTURE_INFO list \<Rightarrow> int \<Rightarrow> string \<Rightarrow> int \<times> int \<times> bool \<Rightarrow> error + int" where
  "FindTextureSlot_loop textureIDs loadedTextures tg (textureSlot, index, bFound) =
     (if index < loadedTextures \<and> \<not> bFound then
        (if index < 0 \<or> int (length textureIDs) \<le> index then Inl ArrayIndexOutOfBounds
         else if TEXTURE_INFO.tag (textureIDs ! nat index) = tg
           then FindTextureSlot_loop textureIDs loadedTextures tg (index, index, True)
           else FindTextureSlot_loop textureIDs loadedTextures tg (textureSlot, index + 1, bFound))
      else Inr textureSlot)"
  by pat_completeness auto
termination
  by (relation "measure (\<lambda>(a, n, t, slot, index, found).
        2 * nat (n - index) + (if found then 0 else 1))") auto

definition FindTextureSlot :: "SceneManager \<Rightarrow> string \<Rightarrow> error + int" where
  "FindTextureSlot s tg =
     FindTextureSlot_loop (m_textureIDs s) (m_loadedTextures s) tg (- 1, 0, False)"

subsection \<open>Material registry\<close>

text \<open>
  The loop of \<^verbatim>\<open>FindMaterial\<close>: the loop state is \<open>(index, bFound)\<close> and the caller's
  \<open>material\<close>, of which a match overwrites three fields.
\<close>

function FindMaterial_loop ::
  "OBJECT_MATERIAL list \<Rightarrow> string \<Rightarrow> int \<times> bool \<times> OBJECT_MATERIAL \<Rightarrow> OBJECT_MATERIAL" where
  "FindMaterial_loop objectMaterials tg (index, bFound, material) =
     (if index < int (length objectMaterials) \<and> \<not> bFound then
        (if OBJECT_MATERIAL.tag (objectMaterials ! nat index) = tg
         then FindMaterial_loop objectMaterials tg
                (index, True,
                 material\<lparr>diffuseColor := diffuseColor (objectMaterials ! nat index),
                          specularColor := specularColor (objectMaterials ! nat index),
                          shininess := shininess (objectMaterials ! nat index)\<rparr>)
         else FindMaterial_loop objectMaterials tg (index + 1, bFound, material))
      else material)"
  by pat_completeness auto
termination
  by (relation "measure (\<lambda>(ms, t, index, found, m).
        2 * nat (int (length ms) - index) + (if found then 0 else 1))") auto

text \<open>\<^verbatim>\<open>FindMaterial\<close> returns its result and the caller's material, passed by
  reference.\<close>

definition FindMaterial ::
  "SceneManager \<Rightarrow> string \<Rightarrow> OBJECT_MATERIAL \<Rightarrow> bool \<times> OBJECT_MATERIAL" where
  "FindMaterial s tg material =
     (if length (m_objectMaterials s) = 0 then (False, material)
      else (True, FindMaterial_loop (m_objectMaterials s) tg (0, False, material)))"

subsection \<open>Transformations and shader state\<close>

definition SetTransformations ::
  "vec3 \<Rightarrow> real \<Rightarrow> real \<Rightarrow> real \<Rightarrow> vec3 \<Rightarrow> SceneManager \<Rightarrow> SceneManager" where
  "SetTransformations scaleXYZ XrotationDegrees YrotationDegrees ZrotationDegrees positionXYZ s =
     (let scale = glm_scale scaleXYZ;
          rotationX = glm_rotate (glm_radians XrotationDegrees) (1, 0, 0);
          rotationY = glm_rotate (glm_radians YrotationDegrees) (0, 1, 0);
          rotationZ = glm_rotate (glm_radians ZrotationDegrees) (0, 0, 1);
          translation = glm_translate positionXYZ;
          modelView =
            mat4_times (mat4_times (mat4_times (mat4_times translation rotationZ) rotationY)
              rotationX) scale
      in if NULL \<noteq> m_pShaderManager s
         then emit [UniformWrite g_ModelName (Mat4Value modelView)] s
         else s)"

definition SetShaderColor :: "real \<Rightarrow> real \<Rightarrow> real \<Rightarrow> real \<Rightarrow> SceneManager \<Rightarrow> SceneManager" where
  "SetShaderColor redColorValue greenColorValue blueColorValue alphaValue s =
     (let currentColor = (redColorValue, greenColorValue, blueColorValue, alphaValue)
      in if NULL \<noteq> m_pShaderManager s
         then emit [UniformWrite g_UseTextureName (IntValue 0),
                    UniformWrite g_ColorValueName (Vec4Value currentColor)] s
         else s)"

text \<open>\<^verbatim>\<open>SetShaderTexture\<close> writes the flag first, then looks the slot up.\<close>

definition SetShaderTexture :: "string \<Rightarrow> SceneManager \<Rightarrow> error + SceneManager" where
  "SetShaderTexture textureTag s =
     (if NULL \<noteq> m_pShaderManager s then
        (let s' = emit [UniformWrite g_UseTextureName (IntValue 1)] s
         in case FindTextureSlot s' textureTag of
              Inl e \<Rightarrow> Inl e
            | Inr textureID \<Rightarrow>
                Inr (emit [UniformWrite g_TextureValueName (Sampler2DValue textureID)] s'))
      else Inr s)"

definition SetTextureUVScale :: "real \<Rightarrow> real \<Rightarrow> SceneManager \<Rightarrow> SceneManager" where
  "SetTextureUVScale u v s =
     (if NULL \<noteq> m_pShaderManager s
      then emit [UniformWrite ''UVscale'' (Vec2Value (u, v))] s
      else s)"

text \<open>
  \<^verbatim>\<open>SetShaderMaterial\<close>. Its local \<^verbatim>\<open>material\<close> is not initialised: the value it
  happens to hold is the parameter \<open>material\<close>. The three writes go through
  \<^verbatim>\<open>m_pShaderManager\<close> without a test of the pointer.
\<close>

definition SetShaderMaterial ::
  "OBJECT_MATERIAL \<Rightarrow> string \<Rightarrow> SceneManager \<Rightarrow> error + SceneManager" where
  "SetShaderMaterial material materialTag s =
     (if length (m_objectMaterials s) > 0 then
        (case FindMaterial s materialTag material of
           (bReturn, material') \<Rightarrow>
             if bReturn then
               (if m_pShaderManager s = NULL then Inl NullPointerDereference
                else Inr (emit
                  [UniformWrite ''material.diffuseColor'' (Vec3Value (diffuseColor material')),
                   UniformWrite ''material.specularColor'' (Vec3Value (specularColor material')),
                   UniformWrite ''material.shininess'' (FloatValue (shininess material'))] s))
             else Inr s)
      else Inr s)"

subsection \<open>The scene\<close>

text \<open>A function body as the list of its statements: each runs on the state the previous
  one left, and undefined behaviour ends the run.\<close>

fun statements ::
  "(SceneManager \<Rightarrow> error + SceneManager) list \<Rightarrow> SceneManager \<Rightarrow> error + SceneManager" where
  "statements [] s = Inr s"
| "statements (c # cs) s = (case c s of Inl e \<Rightarrow> Inl e | Inr s' \<Rightarrow> statements cs s')"

text \<open>A call that cannot fail, as a statement.\<close>

definition ok :: "(SceneManager \<Rightarrow> SceneManager) \<Rightarrow> SceneManager \<Rightarrow> error + SceneManager" where
  "ok f s = Inr (f s)"

text \<open>A call whose \<^verbatim>\<open>bool\<close> result is assigned to \<^verbatim>\<open>bReturn\<close> and never read.\<close>

definition bReturn_unused ::
  "(SceneManager \<Rightarrow> error + (bool \<times> SceneManager)) \<Rightarrow> SceneManager \<Rightarrow> error + SceneManager" where
  "bReturn_unused f s = (case f s of Inl e \<Rightarrow> Inl e | Inr (b, s') \<Rightarrow> Inr s')"

text \<open>\<^verbatim>\<open>m_basicMeshes\<close> is set by the constructor and never null while the object
  lives.\<close>

definition m_basicMeshes_draw :: "mesh_draw \<Rightarrow> SceneManager \<Rightarrow> error + SceneManager" where
  "m_basicMeshes_draw d s = Inr (emit [Draw d] s)"

definition m_basicMeshes_load :: "mesh_load \<Rightarrow> SceneManager \<Rightarrow> error + SceneManager" where
  "m_basicMeshes_load l s = Inr (emit [Load l] s)"

definition LoadSceneTextures :: "stbi \<Rightarrow> SceneManager \<Rightarrow> error + SceneManager" where
  "LoadSceneTextures stbi_load =
     statements
       [bReturn_unused (CreateGLTexture stbi_load ''textures/marble.jpg'' ''marble''),
        bReturn_unused (CreateGLTexture stbi_load ''textures/gold.jpg'' ''gold''),
        bReturn_unused (CreateGLTexture stbi_load ''textures/versace.jpg'' ''versace''),
        bReturn_unused (CreateGLTexture stbi_load ''textures/blue_glass.jpg'' ''blue_glass''),
        bReturn_unused (CreateGLTexture stbi_load ''textures/perfume.jpg'' ''perfume''),
        BindGLTextures]"

definition PrepareScene :: "stbi \<Rightarrow> SceneManager \<Rightarrow> error + SceneManager" where
  "PrepareScene stbi_load =
     statements
       [LoadSceneTextures stbi_load,
        m_basicMeshes_load LoadBoxMesh,
        m_basicMeshes_load LoadPlaneMesh,
        m_basicMeshes_load LoadCylinderMesh,
        m_basicMeshes_load LoadConeMesh,
        m_basicMeshes_load LoadPrismMesh,
        m_basicMeshes_load LoadPyramid4Mesh,
        m_basicMeshes_load LoadSphereMesh,
        m_basicMeshes_load LoadTaperedCylinderMesh,
        m_basicMeshes_load LoadTorusMesh]"

definition RenderTable :: "SceneManager \<Rightarrow> error + SceneManager" where
  "RenderTable =
     statements
       [ok (SetTransformations (30, 1, 30) 0 0 0 (0, 0, 0)),
        SetShaderTexture ''marble'',
        m_basicMeshes_draw DrawPlaneMesh]"

definition RenderCologneBottle :: "SceneManager \<Rightarrow> error + SceneManager" where
  "RenderCologneBottle =
     statements
       [ok (SetTransformations (3.5, 5, 1.5) 0 0 0 (- 15, 2.5, - 15)),
        SetShaderTexture ''blue_glass'',
        m_basicMeshes_draw DrawBoxMesh,
        ok (SetTransformations (0.5, 0.5, 0.2) 0 0 0 (- 15, 2.5, - 14.25)),
        SetShaderTexture ''versace'',
        m_basicMeshes_draw DrawSphereMesh,
        ok (SetTransformations (0.7, 0.8, 0.7) 0 0 0 (- 15, 5, - 15)),
        SetShaderTexture ''gold'',
        m_basicMeshes_draw (DrawCylinderMesh None),
        ok (SetTransformations (1, 1, 1) 0 90 0 (- 15, 5.8, - 15)),
        SetShaderTexture ''gold'',
        m_basicMeshes_draw (DrawCylinderMesh (Some (False, True, True))),
        SetShaderTexture ''versace'',
        m_basicMeshes_draw (DrawCylinderMesh (Some (True, False, False)))]"

definition RenderPerfumeBottle :: "SceneManager \<Rightarrow> error + SceneManager" where
  "RenderPerfumeBottle =
     statements
       [ok (SetTransformations (1.75, 3.5, 1.75) 0 0 0 (- 19, 1.75, 5)),
        SetShaderTexture ''perfume'',
        m_basicMeshes_draw DrawBoxMesh,
        ok (SetTransformations (0.65, 1, 1.25) 90 0 0 (- 19, 1.75, 5.9)),
        ok (SetShaderColor 1 0 0 1),
        m_basicMeshes_draw DrawPlaneMesh,
        ok (SetTransformations (0.65, 0.5, 0.65) 0 0 0 (- 19, 3.5, 5)),
        SetShaderTexture ''gold'',
        m_basicMeshes_draw (DrawCylinderMesh None),
        ok (SetTransformations (1.5, 0.75, 1.5) 0 0 0 (- 19, 4.37, 5)),
        SetShaderTexture ''gold'',
        m_basicMeshes_draw (DrawBoxMeshSide side_bottom),
        m_basicMeshes_draw (DrawBoxMeshSide side_right),
        m_basicMeshes_draw (DrawBoxMeshSide side_left),
        m_basicMeshes_draw (DrawBoxMeshSide side_back),
        m_basicMeshes_draw (DrawBoxMeshSide side_front),
        SetShaderTexture ''versace'',
        m_basicMeshes_draw (DrawBoxMeshSide side_top)]"

definition RenderItinerary :: "SceneManager \<Rightarrow> error + SceneManager" where
  "RenderItinerary =
     statements
       [ok (SetTransformations (22, 0.1, 11) 0 (- 60) 0 (- 18, 0.1, - 5)),
        ok (SetShaderColor 1 1 1 1),
        m_basicMeshes_draw DrawBoxMesh,
        ok (SetTransformations (1.5, 1.5, 0.75) 90 0 0 (- 22.25, 0.3, - 12.75)),
        ok (SetShaderColor 0.12 0.21 0.18 1),
        m_basicMeshes_draw DrawTorusMesh,
        ok (SetTransformations (1.6, 0.3, 1.6) 0 0 0 (- 22.25, 0, - 12.75)),
        ok (SetShaderColor 0.12 0.21 0.18 1),
        m_basicMeshes_draw DrawHalfSphereMesh]"

definition RenderNecklaceBox :: "SceneManager \<Rightarrow> error + SceneManager" where
  "RenderNecklaceBox = statements []"

definition RenderRingBox :: "SceneManager \<Rightarrow> error + SceneManager" where
  "RenderRingBox = statements []"

definition RenderWhiteVowBook :: "SceneManager \<Rightarrow> error + SceneManager" where
  "RenderWhiteVowBook = statements []"

definition RenderBrownVowBook :: "SceneManager \<Rightarrow> error + SceneManager" where
  "RenderBrownVowBook = statements []"

definition RenderScene :: "SceneManager \<Rightarrow> error + SceneManager" where
  "RenderScene =
     statements
       [RenderTable, RenderCologneBottle, RenderPerfumeBottle, RenderItinerary,
        RenderNecklaceBox, RenderRingBox, RenderWhiteVowBook, RenderBrownVowBook]"

subsection \<open>Callers and example states used in the statements below\<close>

text \<open>A caller that loads the given (file name, tag) pairs in order: the state after the
  last load if every call of \<^verbatim>\<open>CreateGLTexture\<close> returned \<^verbatim>\<open>true\<close>, and \<open>None\<close>
  otherwise.\<close>

fun loads_succeed :: "stbi \<Rightarrow> (string \<times> string) list \<Rightarrow> SceneManager \<Rightarrow> SceneManager option" where
  "loads_succeed stbi_load [] s = Some s"
| "loads_succeed stbi_load ((filename, tg) # rest) s =
     (case CreateGLTexture stbi_load filename tg s of
        Inr (True, s') \<Rightarrow> loads_succeed stbi_load rest s'
      | _ \<Rightarrow> None)"

text \<open>The five loads of \<^verbatim>\<open>LoadSceneTextures\<close>.\<close>

definition scene_textures :: "(string \<times> string) list" where
  "scene_textures =
     [(''textures/marble.jpg'', ''marble''), (''textures/gold.jpg'', ''gold''),
      (''textures/versace.jpg'', ''versace''), (''textures/blue_glass.jpg'', ''blue_glass''),
      (''textures/perfume.jpg'', ''perfume'')]"

text \<open>A file system where every file decodes to an RGB image.\<close>

definition rgb_files :: stbi where
  "rgb_files filename = Some \<lparr>width = 512, height = 512, colorChannels = 3\<rparr>"

text \<open>A file system where every file decodes to a one-channel (greyscale) image.\<close>

definition grey_files :: stbi where
  "grey_files filename = Some \<lparr>width = 512, height = 512, colorChannels = 1\<rparr>"

definition unused_entry :: TEXTURE_INFO where
  "unused_entry = \<lparr>ID = 0, tag = []\<rparr>"

text \<open>An example state before any load: an array of 16 entries, none in use, a shader
  manager, no materials.\<close>

definition empty_scene :: SceneManager where
  "empty_scene =
     \<lparr>m_pShaderManager = ShaderManager_object,
      m_textureIDs =
        [unused_entry, unused_entry, unused_entry, unused_entry,
         unused_entry, unused_entry, unused_entry, unused_entry,
         unused_entry, unused_entry, unused_entry, unused_entry,
         unused_entry, unused_entry, unused_entry, unused_entry],
      m_loadedTextures = 0,
      m_objectMaterials = [],
      gl_generated = 0,
      calls = []\<rparr>"

text \<open>An example state with the five scene textures registered.\<close>

definition loaded_scene :: SceneManager where
  "loaded_scene =
     \<lparr>m_pShaderManager = ShaderManager_object,
      m_textureIDs =
        [\<lparr>ID = 1, tag = ''marble''\<rparr>, \<lparr>ID = 2, tag = ''gold''\<rparr>,
         \<lparr>ID = 3, tag = ''versace''\<rparr>, \<lparr>ID = 4, tag = ''blue_glass''\<rparr>,
         \<lparr>ID = 5, tag = ''perfume''\<rparr>, unused_entry, unused_entry, unused_entry,
         unused_entry, unused_entry, unused_entry, unused_entry,
         unused_entry, unused_entry, unused_entry, unused_entry],
      m_loadedTextures = 5,
      m_objectMaterials = [],
      gl_generated = 5,
      calls = []\<rparr>"

text \<open>Example materials, and \<open>loaded_scene\<close> with a material list.\<close>

definition glass_material :: OBJECT_MATERIAL where
  "glass_material =
     \<lparr>diffuseColor = (0.2, 0.2, 0.3), specularColor = (1, 1, 1), shininess = 85, tag = ''glass''\<rparr>"

definition gold_material :: OBJECT_MATERIAL where
  "gold_material =
     \<lparr>diffuseColor = (0.4, 0.4, 0.2), specularColor = (0.6, 0.6, 0.4), shininess = 22, tag = ''gold''\<rparr>"

definition plain_material :: OBJECT_MATERIAL where
  "plain_material =
     \<lparr>diffuseColor = (0, 0, 0), specularColor = (0, 0, 0), shininess = 0, tag = []\<rparr>"

definition material_scene :: SceneManager where
  "material_scene = loaded_scene\<lparr>m_objectMaterials := [glass_material, gold_material]\<rparr>"

text \<open>The same state, and \<open>loaded_scene\<close> itself, for a \<open>SceneManager\<close> constructed with a
  null shader manager.\<close>

definition null_shader_material_scene :: SceneManager where
  "null_shader_material_scene = material_scene\<lparr>m_pShaderManager := NULL\<rparr>"

definition null_shader_scene :: SceneManager where
  "null_shader_scene = loaded_scene\<lparr>m_pShaderManager := NULL\<rparr>"

subsection \<open>The model matrix in the words of the specification\<close>

text \<open>
  The translation to a position, the rotations by an angle in degrees about the unit X, Y
  and Z axes, and the scaling, as the usual 4x4 matrices of homogeneous coordinates,
  written row by row (\<open>mat4_of_rows\<close> turns the rows into the columns of a \<open>mat4\<close>).
\<close>

fun mat4_of_rows :: "vec4 \<Rightarrow> vec4 \<Rightarrow> vec4 \<Rightarrow> vec4 \<Rightarrow> mat4" where
  "mat4_of_rows (a0, a1, a2, a3) (b0, b1, b2, b3) (c0, c1, c2, c3) (d0, d1, d2, d3) =
     ((a0, b0, c0, d0), (a1, b1, c1, d1), (a2, b2, c2, d2), (a3, b3, c3, d3))"

fun Translation :: "vec3 \<Rightarrow> mat4" where
  "Translation (px, py, pz) =
     mat4_of_rows (1, 0, 0, px)
                  (0, 1, 0, py)
                  (0, 0, 1, pz)
                  (0, 0, 0, 1)"

definition RotationX :: "real \<Rightarrow> mat4" where
  "RotationX degrees =
     (let a = degrees * pi / 180 in
      mat4_of_rows (1, 0, 0, 0)
                   (0, cos a, - sin a, 0)
                   (0, sin a, cos a, 0)
                   (0, 0, 0, 1))"

definition RotationY :: "real \<Rightarrow> mat4" where
  "RotationY degrees =
     (let a = degrees * pi / 180 in
      mat4_of_rows (cos a, 0, sin a, 0)
                   (0, 1, 0, 0)
                   (- sin a, 0, cos a, 0)
                   (0, 0, 0, 1))"

definition RotationZ :: "real \<Rightarrow> mat4" where
  "RotationZ degrees =
     (let a = degrees * pi / 180 in
      mat4_of_rows (cos a, - sin a, 0, 0)
                   (sin a, cos a, 0, 0)
                   (0, 0, 1, 0)
                   (0, 0, 0, 1))"

fun Scale :: "vec3 \<Rightarrow> mat4" where
  "Scale (sx, sy, sz) =
     mat4_of_rows (sx, 0, 0, 0)
                  (0, sy, 0, 0)
                  (0, 0, sz, 0)
                  (0, 0, 0, 1)"

subsection \<open>Reading the log\<close>

text \<open>The value a uniform holds after the calls of a log: that of the last write to its
  name, if there is one.\<close>

fun uniform_in :: "event list \<Rightarrow> string \<Rightarrow> uniform_value option" where
  "uniform_in [] name = None"
| "uniform_in (UniformWrite n v # es) name =
     (case uniform_in es name of Some v' \<Rightarrow> Some v' | None \<Rightarrow> if n = name then Some v else None)"
| "uniform_in (e # es) name = uniform_in es name"

text \<open>The value of the local \<^verbatim>\<open>modelView\<close> of \<open>SetTransformations\<close>, and the slot
  \<open>SetShaderTexture\<close> gets from \<open>FindTextureSlot\<close>, by name.\<close>

definition modelView_of :: "vec3 \<Rightarrow> real \<Rightarrow> real \<Rightarrow> real \<Rightarrow> vec3 \<Rightarrow> mat4" where
  "modelView_of scaleXYZ XrotationDegrees YrotationDegrees ZrotationDegrees positionXYZ =
     mat4_times (mat4_times (mat4_times (mat4_times
       (glm_translate positionXYZ)
       (glm_rotate (glm_radians ZrotationDegrees) (0, 0, 1)))
       (glm_rotate (glm_radians YrotationDegrees) (0, 1, 0)))
       (glm_rotate (glm_radians XrotationDegrees) (1, 0, 0)))
       (glm_scale scaleXYZ)"

definition slot_of :: "SceneManager \<Rightarrow> string \<Rightarrow> int" where
  "slot_of s tg = (case FindTextureSlot s tg of Inr textureSlot \<Rightarrow> textureSlot | Inl e \<Rightarrow> - 1)"

text \<open>Two states with the same shader-manager pointer, texture registry and material
  list; they may differ in the log and in the texture names OpenGL has handed out.\<close>

definition same_registries :: "SceneManager \<Rightarrow> SceneManager \<Rightarrow> bool" where
  "same_registries s t \<longleftrightarrow>
     m_pShaderManager t = m_pShaderManager s \<and> m_textureIDs t = m_textureIDs s
     \<and> m_loadedTextures t = m_loadedTextures s \<and> m_objectMaterials t = m_objectMaterials s"

subsection \<open>The calls of the render routines\<close>

text \<open>
  The calls a render routine makes, as data: one constructor for each of the four
  operations the routines call, with the arguments of the call. \<open>run_call\<close> is the call
  itself.
\<close>

datatype call =
    SetTransformations_call vec3 real real real vec3
  | SetShaderColor_call real real real real
  | SetShaderTexture_call string
  | Draw_call mesh_draw

fun run_call :: "call \<Rightarrow> SceneManager \<Rightarrow> error + SceneManager" where
  "run_call (SetTransformations_call scaleXYZ x y z positionXYZ) =
     ok (SetTransformations scaleXYZ x y z positionXYZ)"
| "run_call (SetShaderColor_call r g b a) = ok (SetShaderColor r g b a)"
| "run_call (SetShaderTexture_call textureTag) = SetShaderTexture textureTag"
| "run_call (Draw_call d) = m_basicMeshes_draw d"

text \<open>The bodies of the eight render routines as lists of calls, statement by statement,
  whatever the shader-manager pointer is.\<close>

definition RenderTable_calls :: "call list" where
  "RenderTable_calls =
     [SetTransformations_call (30, 1, 30) 0 0 0 (0, 0, 0),
      SetShaderTexture_call ''marble'',
      Draw_call DrawPlaneMesh]"

definition RenderCologneBottle_calls :: "call list" where
  "RenderCologneBottle_calls =
     [SetTransformations_call (3.5, 5, 1.5) 0 0 0 (- 15, 2.5, - 15),
      SetShaderTexture_call ''blue_glass'',
      Draw_call DrawBoxMesh,
      SetTransformations_call (0.5, 0.5, 0.2) 0 0 0 (- 15, 2.5, - 14.25),
      SetShaderTexture_call ''versace'',
      Draw_call DrawSphereMesh,
      SetTransformations_call (0.7, 0.8, 0.7) 0 0 0 (- 15, 5, - 15),
      SetShaderTexture_call ''gold'',
      Draw_call (DrawCylinderMesh None),
      SetTransformations_call (1, 1, 1) 0 90 0 (- 15, 5.8, - 15),
      SetShaderTexture_call ''gold'',
      Draw_call (DrawCylinderMesh (Some (False, True, True))),
      SetShaderTexture_call ''versace'',
      Draw_call (DrawCylinderMesh (Some (True, False, False)))]"

definition RenderPerfumeBottle_calls :: "call list" where
  "RenderPerfumeBottle_calls =
     [SetTransformations_call (1.75, 3.5, 1.75) 0 0 0 (- 19, 1.75, 5),
      SetShaderTexture_call ''perfume'',
      Draw_call DrawBoxMesh,
      SetTransformations_call (0.65, 1, 1.25) 90 0 0 (- 19, 1.75, 5.9),
      SetShaderColor_call 1 0 0 1,
      Draw_call DrawPlaneMesh,
      SetTransformations_call (0.65, 0.5, 0.65) 0 0 0 (- 19, 3.5, 5),
      SetShaderTexture_call ''gold'',
      Draw_call (DrawCylinderMesh None),
      SetTransformations_call (1.5, 0.75, 1.5) 0 0 0 (- 19, 4.37, 5),
      SetShaderTexture_call ''gold'',
      Draw_call (DrawBoxMeshSide side_bottom),
      Draw_call (DrawBoxMeshSide side_right),
      Draw_call (DrawBoxMeshSide side_left),
      Draw_call (DrawBoxMeshSide side_back),
      Draw_call (DrawBoxMeshSide side_front),
      SetShaderTexture_call ''versace'',
      Draw_call (DrawBoxMeshSide side_top)]"

definition RenderItinerary_calls :: "call list" where
  "RenderItinerary_calls =
     [SetTransformations_call (22, 0.1, 11) 0 (- 60) 0 (- 18, 0.1, - 5),
      SetShaderColor_call 1 1 1 1,
      Draw_call DrawBoxMesh,
      SetTransformations_call (1.5, 1.5, 0.75) 90 0 0 (- 22.25, 0.3, - 12.75),
      SetShaderColor_call 0.12 0.21 0.18 1,
      Draw_call DrawTorusMesh,
      SetTransformations_call (1.6, 0.3, 1.6) 0 0 0 (- 22.25, 0, - 12.75),
      SetShaderColor_call 0.12 0.21 0.18 1,
      Draw_call DrawHalfSphereMesh]"

definition RenderNecklaceBox_calls :: "call list" where
  "RenderNecklaceBox_calls = []"

definition RenderRingBox_calls :: "call list" where
  "RenderRingBox_calls = []"

definition RenderWhiteVowBook_calls :: "call list" where
  "RenderWhiteVowBook_calls = []"

definition RenderBrownVowBook_calls :: "call list" where
  "RenderBrownVowBook_calls = []"

text \<open>The calls of a frame: those of the eight routines, in the order in which
  \<open>RenderScene\<close> calls the routines.\<close>

definition RenderScene_calls :: "call list" where
  "RenderScene_calls =
     RenderTable_calls @ RenderCologneBottle_calls @ RenderPerfumeBottle_calls
     @ RenderItinerary_calls @ RenderNecklaceBox_calls @ RenderRingBox_calls
     @ RenderWhiteVowBook_calls @ RenderBrownVowBook_calls"

text \<open>
  On a list of calls, \<open>fresh_triples\<close> says that every draw call has both a call of
  \<open>SetTransformations\<close> and a shader-state call (\<open>SetShaderColor\<close> or \<open>SetShaderTexture\<close>)
  between the previous draw call (or the start of the list) and itself; its two flags
  record which of the two have been seen since then.
\<close>

fun fresh_triples :: "bool \<Rightarrow> bool \<Rightarrow> call list \<Rightarrow> bool" where
  "fresh_triples transformed shaded [] = True"
| "fresh_triples transformed shaded (SetTransformations_call scaleXYZ x y z positionXYZ # cs) =
     fresh_triples True shaded cs"
| "fresh_triples transformed shaded (SetShaderColor_call r g b a # cs) =
     fresh_triples transformed True cs"
| "fresh_triples transformed shaded (SetShaderTexture_call textureTag # cs) =
     fresh_triples transformed True cs"
| "fresh_triples transformed shaded (Draw_call d # cs) =
     (transformed \<and> shaded \<and> fresh_triples False False cs)"

text \<open>The mesh a draw call draws, and whether two draw calls of one mesh draw a part in
  common: two sides of the box do if they are the same side, two calls with cylinder flags
  if a flag is set in both, and a call that draws a whole mesh always does.\<close>

datatype mesh = PlaneMesh | BoxMesh | SphereMesh | CylinderMesh | TorusMesh | HalfSphereMesh

fun mesh_of :: "mesh_draw \<Rightarrow> mesh" where
  "mesh_of DrawPlaneMesh = PlaneMesh"
| "mesh_of DrawBoxMesh = BoxMesh"
| "mesh_of DrawSphereMesh = SphereMesh"
| "mesh_of (DrawCylinderMesh flags) = CylinderMesh"
| "mesh_of (DrawBoxMeshSide side) = BoxMesh"
| "mesh_of DrawTorusMesh = TorusMesh"
| "mesh_of DrawHalfSphereMesh = HalfSphereMesh"

fun common_part :: "mesh_draw \<Rightarrow> mesh_draw \<Rightarrow> bool" where
  "common_part (DrawBoxMeshSide side) (DrawBoxMeshSide side') = (side = side')"
| "common_part (DrawCylinderMesh (Some (a, b, c))) (DrawCylinderMesh (Some (a', b', c'))) =
     (a \<and> a' \<or> b \<and> b' \<or> c \<and> c')"
| "common_part d d' = True"

text \<open>A draw call that may go on a group in which the calls \<open>ds\<close> have drawn: it draws
  the mesh they drew and no part that one of them drew.\<close>

definition further_part :: "mesh_draw list \<Rightarrow> mesh_draw \<Rightarrow> bool" where
  "further_part ds d = list_all (\<lambda>d'. mesh_of d' = mesh_of d \<and> \<not> common_part d' d) ds"

text \<open>
  What the render routines do instead: a list of calls is a sequence of groups. A group
  is one call of \<open>SetTransformations\<close>, one shader-state call and one draw call, followed
  by any number of further draw calls; each of these draws parts of the same mesh that
  no earlier draw call of the group has drawn, has at most one new shader-state call
  before it and no new call of \<open>SetTransformations\<close>. The phase is the place in a group,
  with the draw calls of the group so far; \<open>after_call\<close> is the phase after a call, and
  \<open>None\<close> where the call cannot stand.
\<close>

datatype phase = Between_groups | Transformed | Shaded "mesh_draw list" | Drawn "mesh_draw list"

fun after_call :: "phase \<Rightarrow> call \<Rightarrow> phase option" where
  "after_call Between_groups (SetTransformations_call scaleXYZ x y z positionXYZ) = Some Transformed"
| "after_call (Drawn ds) (SetTransformations_call scaleXYZ x y z positionXYZ) = Some Transformed"
| "after_call Transformed (SetShaderColor_call r g b a) = Some (Shaded [])"
| "after_call Transformed (SetShaderTexture_call textureTag) = Some (Shaded [])"
| "after_call (Drawn ds) (SetShaderColor_call r g b a) = Some (Shaded ds)"
| "after_call (Drawn ds) (SetShaderTexture_call textureTag) = Some (Shaded ds)"
| "after_call (Shaded ds) (Draw_call d) = (if further_part ds d then Some (Drawn (d # ds)) else None)"
| "after_call (Drawn ds) (Draw_call d) = (if further_part ds d then Some (Drawn (d # ds)) else None)"
| "after_call p c = None"

fun grouped :: "phase \<Rightarrow> call list \<Rightarrow> bool" where
  "grouped Between_groups [] = True"
| "grouped (Drawn ds) [] = True"
| "grouped p [] = False"
| "grouped p (c # cs) = (case after_call p c of None \<Rightarrow> False | Some p' \<Rightarrow> grouped p' cs)"

section \<open>Properties\<close>

subsection \<open>Auxiliary facts\<close>

declare FindTextureSlot_loop.simps [simp del]
declare FindMaterial_loop.simps [simp del]
declare BindGLTextures_loop.simps [simp del]

lemma emit_fields [simp]:
  "m_pShaderManager (emit es s) = m_pShaderManager s"
  "m_textureIDs (emit es s) = m_textureIDs s"
  "m_loadedTextures (emit es s) = m_loadedTextures s"
  "m_objectMaterials (emit es s) = m_objectMaterials s"
  "gl_generated (emit es s) = gl_generated s"
  "calls (emit es s) = calls s @ es"
  by (simp_all add: emit_def)

lemma FindTextureSlot_loop_found: "FindTextureSlot_loop a n t (slot, i, True) = Inr slot"
  by (simp add: FindTextureSlot_loop.simps)

lemma FindTextureSlot_loop_hit:
  assumes "0 \<le> i" "i \<le> k" "k < n" "n \<le> int (length a)"
    and "TEXTURE_INFO.tag (a ! nat k) = t"
    and "\<forall>j. i \<le> j \<and> j < k \<longrightarrow> TEXTURE_INFO.tag (a ! nat j) \<noteq> t"
  shows "FindTextureSlot_loop a n t (slot, i, False) = Inr k"
  using assms
proof (induction "nat (k - i)" arbitrary: i slot)
  case 0
  then have "i = k" by simp
  with 0 show ?case
    by (simp add: FindTextureSlot_loop.simps [of a n t slot k False] FindTextureSlot_loop_found)
next
  case (Suc d)
  then have lt: "i < k" by linarith
  with Suc.prems have ne: "TEXTURE_INFO.tag (a ! nat i) \<noteq> t" by simp
  have "FindTextureSlot_loop a n t (slot, i + 1, False) = Inr k"
    using Suc.hyps(2) Suc.prems lt by (intro Suc.hyps(1)) auto
  with ne lt Suc.prems show ?case
    by (simp add: FindTextureSlot_loop.simps [of a n t slot i False])
qed

lemma FindTextureSlot_loop_miss:
  assumes "0 \<le> i" "n \<le> int (length a)"
    and "\<forall>j. i \<le> j \<and> j < n \<longrightarrow> TEXTURE_INFO.tag (a ! nat j) \<noteq> t"
  shows "FindTextureSlot_loop a n t (slot, i, False) = Inr slot"
  using assms
proof (induction "nat (n - i)" arbitrary: i)
  case 0
  then show ?case by (simp add: FindTextureSlot_loop.simps [of a n t slot i False])
next
  case (Suc d)
  then have lt: "i < n" by linarith
  with Suc.prems have ne: "TEXTURE_INFO.tag (a ! nat i) \<noteq> t" by simp
  have "FindTextureSlot_loop a n t (slot, i + 1, False) = Inr slot"
    using Suc.hyps(2) Suc.prems lt by (intro Suc.hyps(1)) auto
  with ne lt Suc.prems show ?case
    by (simp add: FindTextureSlot_loop.simps [of a n t slot i False])
qed

lemma FindTextureSlot_emit [simp]: "FindTextureSlot (emit es s) t = FindTextureSlot s t"
  by (simp add: FindTextureSlot_def)

lemma BindGLTextures_loop_returns:
  assumes "0 \<le> i" "m_loadedTextures s \<le> int (length (m_textureIDs s))"
  shows "\<exists>es. BindGLTextures_loop i s = Inr (emit es s)"
  using assms
proof (induction "nat (m_loadedTextures s - i)" arbitrary: i s)
  case 0
  then have "BindGLTextures_loop i s = Inr (emit [] s)"
    by (simp add: BindGLTextures_loop.simps [of i s] emit_def)
  then show ?case by blast
next
  case (Suc d)
  let ?s = "emit [GL (glActiveTexture i), GL (glBindTexture (ID (m_textureIDs s ! nat i)))] s"
  from Suc have lt: "i < m_loadedTextures s" by linarith
  have "\<exists>es. BindGLTextures_loop (i + 1) ?s = Inr (emit es ?s)"
    using Suc.hyps(2) Suc.prems by (intro Suc.hyps(1)) auto
  then obtain es where "BindGLTextures_loop (i + 1) ?s = Inr (emit es ?s)" by blast
  with lt Suc.prems have "BindGLTextures_loop i s = Inr (emit es ?s)"
    by (simp add: BindGLTextures_loop.simps [of i s])
  moreover have "emit es ?s =
      emit ([GL (glActiveTexture i), GL (glBindTexture (ID (m_textureIDs s ! nat i)))] @ es) s"
    by (simp add: emit_def)
  ultimately show ?case by metis
qed

lemma CreateGLTexture_true:
  assumes "CreateGLTexture stbi_load filename tg s = Inr (True, s')"
  shows "0 \<le> m_loadedTextures s \<and> m_loadedTextures s < int (length (m_textureIDs s))
       \<and> m_loadedTextures s' = m_loadedTextures s + 1
       \<and> m_textureIDs s' =
           (m_textureIDs s)[nat (m_loadedTextures s) := \<lparr>ID = gl_generated s + 1, tag = tg\<rparr>]"
  using assms
  by (auto simp: CreateGLTexture_def register_texture_def Let_def
           split: option.splits if_splits)

lemma loads_succeed_registry:
  assumes "loads_succeed stbi_load loads s = Some s'" "0 \<le> m_loadedTextures s"
  shows "m_loadedTextures s' = m_loadedTextures s + int (length loads)
       \<and> length (m_textureIDs s') = length (m_textureIDs s)
       \<and> (loads \<noteq> [] \<longrightarrow> m_loadedTextures s' \<le> int (length (m_textureIDs s')))
       \<and> (\<forall>j < length loads.
             TEXTURE_INFO.tag (m_textureIDs s' ! (nat (m_loadedTextures s) + j)) = snd (loads ! j))
       \<and> (\<forall>j < nat (m_loadedTextures s). m_textureIDs s' ! j = m_textureIDs s ! j)"
  using assms
proof (induction loads arbitrary: s)
  case Nil
  then show ?case by simp
next
  case (Cons l loads)
  obtain filename tg where l: "l = (filename, tg)" by (cases l)
  from Cons.prems(1) l obtain s1 where
    c: "CreateGLTexture stbi_load filename tg s = Inr (True, s1)"
    and r: "loads_succeed stbi_load loads s1 = Some s'"
    by (auto split: sum.splits prod.splits bool.splits)
  note t = CreateGLTexture_true [OF c]
  from t Cons.prems(2) have n1: "0 \<le> m_loadedTextures s1" by simp
  note ih = Cons.IH [OF r n1]
  let ?n = "nat (m_loadedTextures s)"
  have nat1: "nat (m_loadedTextures s1) = Suc ?n" using t by (simp add: nat_add_distrib)
  have len1: "length (m_textureIDs s1) = length (m_textureIDs s)" using t by simp
  have in_range: "?n < length (m_textureIDs s)" using t by (simp add: nat_less_iff)
  have count: "m_loadedTextures s' = m_loadedTextures s + int (length (l # loads))"
    using ih t by simp
  have len: "length (m_textureIDs s') = length (m_textureIDs s)"
    using ih len1 by simp
  have bound: "m_loadedTextures s' \<le> int (length (m_textureIDs s'))"
  proof (cases "loads = []")
    case True
    with r have "s' = s1" by simp
    with t show ?thesis by simp
  next
    case False
    with ih show ?thesis by simp
  qed
  have kept: "m_textureIDs s' ! ?n = \<lparr>ID = gl_generated s + 1, tag = tg\<rparr>"
  proof -
    have "m_textureIDs s' ! ?n = m_textureIDs s1 ! ?n" using ih nat1 by simp
    with t in_range show ?thesis by simp
  qed
  have tags: "\<forall>j < length (l # loads).
      TEXTURE_INFO.tag (m_textureIDs s' ! (?n + j)) = snd ((l # loads) ! j)"
  proof (intro allI impI)
    fix j assume j: "j < length (l # loads)"
    show "TEXTURE_INFO.tag (m_textureIDs s' ! (?n + j)) = snd ((l # loads) ! j)"
    proof (cases j)
      case 0
      with kept l show ?thesis by simp
    next
      case (Suc j')
      with j have "j' < length loads" by simp
      with ih nat1 Suc show ?thesis by simp
    qed
  qed
  have old: "\<forall>j < ?n. m_textureIDs s' ! j = m_textureIDs s ! j"
  proof (intro allI impI)
    fix j assume j: "j < ?n"
    then have "m_textureIDs s' ! j = m_textureIDs s1 ! j" using ih nat1 by simp
    with t j show "m_textureIDs s' ! j = m_textureIDs s ! j" by simp
  qed
  from count len bound tags old show ?case by simp
qed

subsection \<open>Texture registry\<close>

text \<open>
  C8. A tag that matches none of the registered entries (the entries at the indices below
  \<open>m_loadedTextures\<close>, a count within the array) makes \<open>FindTextureSlot\<close> return the
  sentinel \<open>- 1\<close>, which is not an index of a registered entry; an empty registry is the
  case where there is no such index at all.
\<close>

theorem FindTextureSlot_not_found:
  assumes "m_loadedTextures s \<le> int (length (m_textureIDs s))"
    and "\<forall>j. 0 \<le> j \<and> j < m_loadedTextures s \<longrightarrow> TEXTURE_INFO.tag (m_textureIDs s ! nat j) \<noteq> t"
  shows "FindTextureSlot s t = Inr (- 1)
       \<and> (\<forall>r. FindTextureSlot s t = Inr r \<longrightarrow> \<not> (0 \<le> r \<and> r < m_loadedTextures s))"
proof -
  have "FindTextureSlot s t = Inr (- 1)"
    unfolding FindTextureSlot_def using assms
    by (intro FindTextureSlot_loop_miss) auto
  then show ?thesis by simp
qed

theorem FindTextureSlot_not_found_witness:
  "FindTextureSlot loaded_scene ''nope'' = Inr (- 1)
   \<and> FindTextureSlot empty_scene ''marble'' = Inr (- 1)"
proof -
  have b: "m_loadedTextures loaded_scene \<le> int (length (m_textureIDs loaded_scene))"
    by (simp add: loaded_scene_def)
  have "TEXTURE_INFO.tag (m_textureIDs loaded_scene ! nat j) \<noteq> ''nope''"
    if "0 \<le> j" "j < 5" for j
  proof -
    from that have "j = 0 \<or> j = 1 \<or> j = 2 \<or> j = 3 \<or> j = 4" by arith
    then show ?thesis by (auto simp: loaded_scene_def)
  qed
  then have m: "\<forall>j. 0 \<le> j \<and> j < m_loadedTextures loaded_scene \<longrightarrow>
      TEXTURE_INFO.tag (m_textureIDs loaded_scene ! nat j) \<noteq> ''nope''"
    by (simp add: loaded_scene_def)
  have b': "m_loadedTextures empty_scene \<le> int (length (m_textureIDs empty_scene))"
    by (simp add: empty_scene_def)
  have m': "\<forall>j. 0 \<le> j \<and> j < m_loadedTextures empty_scene \<longrightarrow>
      TEXTURE_INFO.tag (m_textureIDs empty_scene ! nat j) \<noteq> ''marble''"
    by (auto simp: empty_scene_def)
  from FindTextureSlot_not_found [OF b m] FindTextureSlot_not_found [OF b' m']
  show ?thesis by simp
qed

text \<open>
  C3. Starting from an empty registry, after loads with pairwise distinct tags that all
  returned \<^verbatim>\<open>true\<close> and after \<open>BindGLTextures\<close>, \<open>FindTextureSlot\<close> returns for the
  tag of the \<open>i\<close>-th load (counted from zero) the slot \<open>i\<close>, which lies in
  \<open>[0, m_loadedTextures)\<close>. For the five loads of \<open>LoadSceneTextures\<close>, the slot of
  \<open>''versace''\<close> is 2.
\<close>

theorem FindTextureSlot_registration_order:
  assumes "m_loadedTextures s = 0"
    and "distinct (map snd loads)"
    and "loads_succeed stbi_load loads s = Some s1"
  shows "(\<exists>s2. BindGLTextures s1 = Inr s2
            \<and> m_loadedTextures s2 = int (length loads)
            \<and> (\<forall>i < length loads.
                  FindTextureSlot s2 (snd (loads ! i)) = Inr (int i)
                  \<and> 0 \<le> int i \<and> int i < m_loadedTextures s2))
       \<and> (loads = scene_textures \<longrightarrow>
            (\<exists>s2. LoadSceneTextures stbi_load s = Inr s2
               \<and> FindTextureSlot s2 ''versace'' = Inr 2))"
proof -
  from assms(1) have n0: "0 \<le> m_loadedTextures s" by simp
  note reg = loads_succeed_registry [OF assms(3) n0]
  have count: "m_loadedTextures s1 = int (length loads)" using reg assms(1) by simp
  have bound: "m_loadedTextures s1 \<le> int (length (m_textureIDs s1))"
  proof (cases "loads = []")
    case True
    with count show ?thesis by simp
  next
    case False
    with reg show ?thesis by simp
  qed
  have tags: "TEXTURE_INFO.tag (m_textureIDs s1 ! j) = snd (loads ! j)" if "j < length loads" for j
    using reg assms(1) that by simp
  from BindGLTextures_loop_returns [of 0 s1] bound
  obtain es where bind: "BindGLTextures s1 = Inr (emit es s1)"
    unfolding BindGLTextures_def by auto
  have slot: "FindTextureSlot (emit es s1) (snd (loads ! i)) = Inr (int i)"
    if i: "i < length loads" for i
  proof -
    have "FindTextureSlot_loop (m_textureIDs s1) (m_loadedTextures s1) (snd (loads ! i))
            (- 1, 0, False) = Inr (int i)"
    proof (rule FindTextureSlot_loop_hit)
      show "TEXTURE_INFO.tag (m_textureIDs s1 ! nat (int i)) = snd (loads ! i)"
        using tags [OF i] by simp
      show "\<forall>j. 0 \<le> j \<and> j < int i \<longrightarrow>
              TEXTURE_INFO.tag (m_textureIDs s1 ! nat j) \<noteq> snd (loads ! i)"
      proof (intro allI impI)
        fix j :: int assume j: "0 \<le> j \<and> j < int i"
        then have lt: "nat j < i" by linarith
        with i have "nat j < length loads" by simp
        then have "TEXTURE_INFO.tag (m_textureIDs s1 ! nat j) = snd (loads ! nat j)"
          by (rule tags)
        moreover have "map snd loads ! nat j \<noteq> map snd loads ! i"
          using nth_eq_iff_index_eq [OF assms(2), of "nat j" i] lt i by simp
        ultimately show "TEXTURE_INFO.tag (m_textureIDs s1 ! nat j) \<noteq> snd (loads ! i)"
          using lt i by simp
      qed
    qed (use i count bound in auto)
    then show ?thesis by (simp add: FindTextureSlot_def)
  qed
  have general: "\<exists>s2. BindGLTextures s1 = Inr s2
            \<and> m_loadedTextures s2 = int (length loads)
            \<and> (\<forall>i < length loads.
                  FindTextureSlot s2 (snd (loads ! i)) = Inr (int i)
                  \<and> 0 \<le> int i \<and> int i < m_loadedTextures s2)"
    using bind count slot by auto
  have scene: "\<exists>s2. LoadSceneTextures stbi_load s = Inr s2
               \<and> FindTextureSlot s2 ''versace'' = Inr 2" if l: "loads = scene_textures"
  proof -
    have "LoadSceneTextures stbi_load s = BindGLTextures s1"
      using assms(3) unfolding l scene_textures_def LoadSceneTextures_def
      by (auto simp: bReturn_unused_def split: sum.splits prod.splits bool.splits)
    moreover have "FindTextureSlot (emit es s1) (snd (loads ! 2)) = Inr (int 2)"
      by (rule slot) (simp add: l scene_textures_def)
    ultimately show ?thesis using bind by (simp add: l scene_textures_def)
  qed
  from general scene show ?thesis by blast
qed

theorem FindTextureSlot_registration_order_witness:
  "m_loadedTextures empty_scene = 0 \<and> distinct (map snd scene_textures)
   \<and> loads_succeed rgb_files scene_textures empty_scene \<noteq> None
   \<and> (\<exists>s2. LoadSceneTextures rgb_files empty_scene = Inr s2
          \<and> FindTextureSlot s2 ''versace'' = Inr 2)"
proof -
  have a: "m_loadedTextures empty_scene = 0" by (simp add: empty_scene_def)
  have d: "distinct (map snd scene_textures)" by (simp add: scene_textures_def)
  have "\<exists>s1. loads_succeed rgb_files scene_textures empty_scene = Some s1"
    by (simp add: scene_textures_def rgb_files_def empty_scene_def CreateGLTexture_def
          register_texture_def emit_def Let_def)
  then obtain s1 where l: "loads_succeed rgb_files scene_textures empty_scene = Some s1" ..
  from FindTextureSlot_registration_order [OF a d l] a d l show ?thesis by simp
qed

text \<open>
  C4. An image that decodes but has neither 3 nor 4 channels makes \<open>CreateGLTexture\<close>
  return \<^verbatim>\<open>false\<close>, with the count \<open>m_loadedTextures\<close> and the array of entries as they
  were.
\<close>

theorem CreateGLTexture_unsupported_channels:
  assumes "stbi_load filename = Some img"
    and "colorChannels img \<noteq> 3" and "colorChannels img \<noteq> 4"
  shows "\<exists>s'. CreateGLTexture stbi_load filename tg s = Inr (False, s')
            \<and> m_loadedTextures s' = m_loadedTextures s
            \<and> m_textureIDs s' = m_textureIDs s"
  using assms by (simp add: CreateGLTexture_def Let_def)

theorem CreateGLTexture_unsupported_channels_witness:
  "grey_files ''textures/marble.jpg'' = Some \<lparr>width = 512, height = 512, colorChannels = 1\<rparr>
   \<and> (\<exists>s'. CreateGLTexture grey_files ''textures/marble.jpg'' ''marble'' loaded_scene = Inr (False, s')
          \<and> m_loadedTextures s' = 5
          \<and> m_textureIDs s' = m_textureIDs loaded_scene)"
proof -
  have f: "grey_files ''textures/marble.jpg'' = Some \<lparr>width = 512, height = 512, colorChannels = 1\<rparr>"
    by (simp add: grey_files_def)
  have c3: "colorChannels \<lparr>width = 512, height = 512, colorChannels = 1\<rparr> \<noteq> 3" by simp
  have c4: "colorChannels \<lparr>width = 512, height = 512, colorChannels = 1\<rparr> \<noteq> 4" by simp
  have n: "m_loadedTextures loaded_scene = 5" by (simp add: loaded_scene_def)
  from CreateGLTexture_unsupported_channels
    [where stbi_load = grey_files and filename = "''textures/marble.jpg''"
       and img = "\<lparr>width = 512, height = 512, colorChannels = 1\<rparr>"
       and tg = "''marble''" and s = loaded_scene, OF f c3 c4] f n
  show ?thesis by simp
qed

subsection \<open>Material registry\<close>

lemma FindMaterial_loop_found: "FindMaterial_loop ms t (i, True, m) = m"
  by (simp add: FindMaterial_loop.simps)

lemma FindMaterial_loop_scan:
  assumes "0 \<le> i"
  shows "FindMaterial_loop ms t (i, False, m) =
     (case find (\<lambda>e. OBJECT_MATERIAL.tag e = t) (drop (nat i) ms) of
        None \<Rightarrow> m
      | Some e \<Rightarrow> m\<lparr>diffuseColor := diffuseColor e, specularColor := specularColor e,
                     shininess := shininess e\<rparr>)"
  using assms
proof (induction "length ms - nat i" arbitrary: i)
  case 0
  then have "int (length ms) \<le> i" by linarith
  then show ?case by (simp add: FindMaterial_loop.simps [of ms t i False m])
next
  case (Suc d)
  then have lt: "nat i < length ms" by linarith
  then have lt': "i < int (length ms)" by linarith
  have d: "drop (nat i) ms = ms ! nat i # drop (nat (i + 1)) ms"
    using lt Suc.prems by (simp add: Cons_nth_drop_Suc nat_add_distrib)
  show ?case
  proof (cases "OBJECT_MATERIAL.tag (ms ! nat i) = t")
    case True
    with lt' d show ?thesis
      by (simp add: FindMaterial_loop.simps [of ms t i False m] FindMaterial_loop_found)
  next
    case False
    have "d = length ms - nat (i + 1)" using Suc.hyps(2) Suc.prems by (simp add: nat_add_distrib)
    then have "FindMaterial_loop ms t (i + 1, False, m) =
       (case find (\<lambda>e. OBJECT_MATERIAL.tag e = t) (drop (nat (i + 1)) ms) of
          None \<Rightarrow> m
        | Some e \<Rightarrow> m\<lparr>diffuseColor := diffuseColor e, specularColor := specularColor e,
                       shininess := shininess e\<rparr>)"
      using Suc.prems by (intro Suc.hyps(1)) auto
    with False lt' d show ?thesis
      by (simp add: FindMaterial_loop.simps [of ms t i False m])
  qed
qed

text \<open>
  C2. With an empty material list \<open>FindMaterial\<close> returns \<^verbatim>\<open>false\<close> and the caller's
  material as it was. With a non-empty list it returns \<^verbatim>\<open>true\<close> whether or not a tag
  matches: the caller's material gets the diffuse colour, specular colour and shininess
  of the first entry with the tag if there is one, and is as it was if there is none.
\<close>

theorem FindMaterial_result:
  "(m_objectMaterials s = [] \<longrightarrow> FindMaterial s t material = (False, material))
   \<and> (m_objectMaterials s \<noteq> [] \<longrightarrow>
        FindMaterial s t material =
          (True,
           case find (\<lambda>e. OBJECT_MATERIAL.tag e = t) (m_objectMaterials s) of
             None \<Rightarrow> material
           | Some e \<Rightarrow> material\<lparr>diffuseColor := diffuseColor e,
                                 specularColor := specularColor e,
                                 shininess := shininess e\<rparr>))"
  using FindMaterial_loop_scan [of 0 "m_objectMaterials s" t material]
  by (simp add: FindMaterial_def)

theorem FindMaterial_result_witness:
  "m_objectMaterials loaded_scene = [] \<and> m_objectMaterials material_scene \<noteq> []
   \<and> FindMaterial loaded_scene ''gold'' plain_material = (False, plain_material)
   \<and> FindMaterial material_scene ''gold'' plain_material =
       (True, \<lparr>diffuseColor = (0.4, 0.4, 0.2), specularColor = (0.6, 0.6, 0.4),
               shininess = 22, tag = []\<rparr>)
   \<and> FindMaterial material_scene ''wood'' plain_material = (True, plain_material)"
proof -
  have e: "m_objectMaterials loaded_scene = []" by (simp add: loaded_scene_def)
  have n: "m_objectMaterials material_scene \<noteq> []" by (simp add: material_scene_def)
  from FindMaterial_result [of loaded_scene "''gold''" plain_material]
    FindMaterial_result [of material_scene "''gold''" plain_material]
    FindMaterial_result [of material_scene "''wood''" plain_material] e n
  show ?thesis
    by (simp add: material_scene_def glass_material_def gold_material_def plain_material_def)
qed

subsection \<open>Transformations\<close>

lemma glm_translate_eq: "glm_translate P = Translation P"
  by (cases P) (simp add: glm_translate_def mat4_identity_def)

lemma glm_scale_eq: "glm_scale S = Scale S"
  by (cases S) (simp add: glm_scale_def mat4_identity_def)

lemma glm_rotate_X: "glm_rotate (glm_radians x) (1, 0, 0) = RotationX x"
  by (simp add: glm_rotate_def glm_radians_def mat4_identity_def RotationX_def Let_def)

lemma glm_rotate_Y: "glm_rotate (glm_radians y) (0, 1, 0) = RotationY y"
  by (simp add: glm_rotate_def glm_radians_def mat4_identity_def RotationY_def Let_def)

lemma glm_rotate_Z: "glm_rotate (glm_radians z) (0, 0, 1) = RotationZ z"
  by (simp add: glm_rotate_def glm_radians_def mat4_identity_def RotationZ_def Let_def)

lemma SetTransformations_modelView:
  "SetTransformations S x y z P s =
     (if NULL \<noteq> m_pShaderManager s
      then emit [UniformWrite g_ModelName (Mat4Value (modelView_of S x y z P))] s else s)"
  by (simp add: SetTransformations_def modelView_of_def Let_def)

text \<open>
  Over the exact arithmetic of this model, the matrix \<open>SetTransformations\<close> computes is
  the product of the translation, the rotations about the unit Z, Y and X axes and the
  scaling, in this order, each equal to the usual matrix. The code forms the same
  products and sums in 32-bit floating point, rounding after every operation and in the
  library's cosine and sine, so of the code this equality holds up to rounding only; no
  statement below is about the exact value the code writes.
\<close>

lemma modelView_of_exact_arithmetic:
  "modelView_of S x y z P =
     mat4_times (mat4_times (mat4_times (mat4_times
       (Translation P) (RotationZ z)) (RotationY y)) (RotationX x)) (Scale S)"
  by (simp add: modelView_of_def glm_translate_eq glm_scale_eq
        glm_rotate_X glm_rotate_Y glm_rotate_Z)

subsection \<open>Shader state\<close>

lemma FindTextureSlot_loop_returns:
  assumes "0 \<le> i" "n \<le> int (length a)"
  shows "\<exists>k. FindTextureSlot_loop a n t (slot, i, False) = Inr k"
  using assms
proof (induction "nat (n - i)" arbitrary: i)
  case 0
  then show ?case by (simp add: FindTextureSlot_loop.simps [of a n t slot i False])
next
  case (Suc d)
  then have lt: "i < n" by linarith
  have "\<exists>k. FindTextureSlot_loop a n t (slot, i + 1, False) = Inr k"
    using Suc.hyps(2) Suc.prems lt by (intro Suc.hyps(1)) auto
  with lt Suc.prems show ?case
    by (simp add: FindTextureSlot_loop.simps [of a n t slot i False] FindTextureSlot_loop_found)
qed

lemma FindTextureSlot_slot_of:
  assumes "m_loadedTextures s \<le> int (length (m_textureIDs s))"
  shows "FindTextureSlot s t = Inr (slot_of s t)"
proof -
  from FindTextureSlot_loop_returns [of 0 "m_loadedTextures s" "m_textureIDs s" t "- 1"] assms
  obtain k where "FindTextureSlot s t = Inr k" by (auto simp: FindTextureSlot_def)
  then show ?thesis by (simp add: slot_of_def)
qed

lemma slot_of_emit [simp]: "slot_of (emit es s) t = slot_of s t"
  by (simp add: slot_of_def)

lemma emit_emit [simp]: "emit es' (emit es s) = emit (es @ es') s"
  by (simp add: emit_def)

lemma emit_inject [simp]: "(emit es s = emit es' s) = (es = es')"
proof
  assume "emit es s = emit es' s"
  then have "calls (emit es s) = calls (emit es' s)" by simp
  then show "es = es'" by simp
qed simp

lemma SetShaderColor_emit:
  "SetShaderColor r g b a s =
     (if NULL \<noteq> m_pShaderManager s
      then emit [UniformWrite g_UseTextureName (IntValue 0),
                 UniformWrite g_ColorValueName (Vec4Value (r, g, b, a))] s
      else s)"
  by (simp add: SetShaderColor_def)

lemma SetShaderTexture_emit:
  assumes "m_loadedTextures s \<le> int (length (m_textureIDs s))"
  shows "SetShaderTexture t s =
     Inr (if NULL \<noteq> m_pShaderManager s
          then emit [UniformWrite g_UseTextureName (IntValue 1),
                     UniformWrite g_TextureValueName (Sampler2DValue (slot_of s t))] s
          else s)"
  using FindTextureSlot_slot_of [OF assms, of t] by (simp add: SetShaderTexture_def)

lemma uniform_in_append:
  "uniform_in (es @ es') name =
     (case uniform_in es' name of Some v \<Rightarrow> Some v | None \<Rightarrow> uniform_in es name)"
  by (induction es name rule: uniform_in.induct) (auto split: option.splits)

text \<open>
  C9. With a shader manager (and the texture count within the array), after
  \<open>SetShaderColor\<close> the uniform \<open>''bUseTexture''\<close> holds 0 (false) and \<open>''objectColor''\<close>
  the colour; after \<open>SetShaderTexture\<close> the uniform \<open>''bUseTexture''\<close> holds 1 (true) and
  \<open>''objectTexture''\<close> the slot \<open>FindTextureSlot\<close> returned. The flag has one value at a
  time, so the two modes exclude each other.
\<close>

theorem bUseTexture_after_shader_state:
  assumes "m_pShaderManager s \<noteq> NULL"
    and "m_loadedTextures s \<le> int (length (m_textureIDs s))"
  shows "uniform_in (calls (SetShaderColor r g b a s)) ''bUseTexture'' = Some (IntValue 0)
       \<and> uniform_in (calls (SetShaderColor r g b a s)) ''objectColor'' = Some (Vec4Value (r, g, b, a))
       \<and> (\<exists>s' textureSlot.
             SetShaderTexture t s = Inr s' \<and> FindTextureSlot s t = Inr textureSlot
             \<and> uniform_in (calls s') ''bUseTexture'' = Some (IntValue 1)
             \<and> uniform_in (calls s') ''objectTexture'' = Some (Sampler2DValue textureSlot))"
  using assms FindTextureSlot_slot_of [OF assms(2), of t]
  by (simp add: SetShaderColor_emit SetShaderTexture_emit [OF assms(2)] uniform_in_append
        g_UseTextureName_def g_ColorValueName_def g_TextureValueName_def)

theorem bUseTexture_after_shader_state_witness:
  "m_pShaderManager loaded_scene \<noteq> NULL
   \<and> m_loadedTextures loaded_scene \<le> int (length (m_textureIDs loaded_scene))
   \<and> uniform_in (calls (SetShaderColor 1 0 0 1 loaded_scene)) ''bUseTexture'' = Some (IntValue 0)
   \<and> (\<exists>s'. SetShaderTexture ''versace'' loaded_scene = Inr s'
          \<and> uniform_in (calls s') ''bUseTexture'' = Some (IntValue 1))"
proof -
  have p: "m_pShaderManager loaded_scene \<noteq> NULL" by (simp add: loaded_scene_def)
  have b: "m_loadedTextures loaded_scene \<le> int (length (m_textureIDs loaded_scene))"
    by (simp add: loaded_scene_def)
  from bUseTexture_after_shader_state [OF p b, of 1 0 0 1 "''versace''"] p b
  show ?thesis by auto
qed

subsection \<open>The frame\<close>

lemma emit_Nil [simp]: "emit [] s = s"
  by (simp add: emit_def)

lemma same_registries_emit [simp]: "same_registries s (emit es t) = same_registries s t"
  by (simp add: same_registries_def)

lemma same_registries_refl [simp]: "same_registries s s"
  by (simp add: same_registries_def)

lemma slot_of_same: "same_registries s t \<Longrightarrow> slot_of t tg = slot_of s tg"
  by (simp add: same_registries_def slot_of_def FindTextureSlot_def)

text \<open>A statement that, on every state with the registries of \<open>s\<close>, only appends the same
  calls to the log; a list of such statements is such a statement.\<close>

lemma statements_log:
  assumes "\<And>c. c \<in> set cs \<Longrightarrow> \<exists>es. \<forall>t. same_registries s t \<longrightarrow> c t = Inr (emit es t)"
  shows "\<exists>es. \<forall>t. same_registries s t \<longrightarrow> statements cs t = Inr (emit es t)"
  using assms
proof (induction cs)
  case Nil
  have "\<forall>t. same_registries s t \<longrightarrow> statements [] t = Inr (emit [] t)" by simp
  then show ?case by blast
next
  case (Cons c cs)
  from Cons.prems [of c] obtain es1 where
    c: "\<forall>t. same_registries s t \<longrightarrow> c t = Inr (emit es1 t)" by auto
  from Cons.IH Cons.prems obtain es2 where
    cs: "\<forall>t. same_registries s t \<longrightarrow> statements cs t = Inr (emit es2 t)" by auto
  have "\<forall>t. same_registries s t \<longrightarrow> statements (c # cs) t = Inr (emit (es1 @ es2) t)"
    using c cs by simp
  then show ?case by blast
qed

lemma SetTransformations_log:
  "\<exists>es. \<forall>t. same_registries s t \<longrightarrow> ok (SetTransformations S x y z P) t = Inr (emit es t)"
proof (cases "m_pShaderManager s = NULL")
  case True
  then have "\<forall>t. same_registries s t \<longrightarrow> ok (SetTransformations S x y z P) t = Inr (emit [] t)"
    by (simp add: ok_def SetTransformations_modelView same_registries_def)
  then show ?thesis by blast
next
  case False
  then have "\<forall>t. same_registries s t \<longrightarrow> ok (SetTransformations S x y z P) t =
      Inr (emit [UniformWrite g_ModelName (Mat4Value (modelView_of S x y z P))] t)"
    by (simp add: ok_def SetTransformations_modelView same_registries_def)
  then show ?thesis by blast
qed

lemma SetShaderColor_log:
  "\<exists>es. \<forall>t. same_registries s t \<longrightarrow> ok (SetShaderColor r g b a) t = Inr (emit es t)"
proof (cases "m_pShaderManager s = NULL")
  case True
  then have "\<forall>t. same_registries s t \<longrightarrow> ok (SetShaderColor r g b a) t = Inr (emit [] t)"
    by (simp add: ok_def SetShaderColor_emit same_registries_def)
  then show ?thesis by blast
next
  case False
  then have "\<forall>t. same_registries s t \<longrightarrow> ok (SetShaderColor r g b a) t =
      Inr (emit [UniformWrite g_UseTextureName (IntValue 0),
                 UniformWrite g_ColorValueName (Vec4Value (r, g, b, a))] t)"
    by (simp add: ok_def SetShaderColor_emit same_registries_def)
  then show ?thesis by blast
qed

lemma SetShaderTexture_log:
  assumes "m_loadedTextures s \<le> int (length (m_textureIDs s))"
  shows "\<exists>es. \<forall>t. same_registries s t \<longrightarrow> SetShaderTexture tg t = Inr (emit es t)"
proof -
  have b: "m_loadedTextures t \<le> int (length (m_textureIDs t))" if "same_registries s t" for t
    using that assms by (simp add: same_registries_def)
  show ?thesis
  proof (cases "m_pShaderManager s = NULL")
    case True
    have "\<forall>t. same_registries s t \<longrightarrow> SetShaderTexture tg t = Inr (emit [] t)"
    proof (intro allI impI)
      fix t assume t: "same_registries s t"
      with True have "m_pShaderManager t = NULL" by (simp add: same_registries_def)
      then show "SetShaderTexture tg t = Inr (emit [] t)"
        by (simp add: SetShaderTexture_emit [OF b [OF t]])
    qed
    then show ?thesis by blast
  next
    case False
    have "\<forall>t. same_registries s t \<longrightarrow> SetShaderTexture tg t =
        Inr (emit [UniformWrite g_UseTextureName (IntValue 1),
                   UniformWrite g_TextureValueName (Sampler2DValue (slot_of s tg))] t)"
    proof (intro allI impI)
      fix t assume t: "same_registries s t"
      with False have "m_pShaderManager t \<noteq> NULL" by (simp add: same_registries_def)
      then show "SetShaderTexture tg t =
        Inr (emit [UniformWrite g_UseTextureName (IntValue 1),
                   UniformWrite g_TextureValueName (Sampler2DValue (slot_of s tg))] t)"
        by (simp add: SetShaderTexture_emit [OF b [OF t]] slot_of_same [OF t])
    qed
    then show ?thesis by blast
  qed
qed

lemma m_basicMeshes_draw_log:
  "\<exists>es. \<forall>t. same_registries s t \<longrightarrow> m_basicMeshes_draw d t = Inr (emit es t)"
proof -
  have "\<forall>t. same_registries s t \<longrightarrow> m_basicMeshes_draw d t = Inr (emit [Draw d] t)"
    by (simp add: m_basicMeshes_draw_def)
  then show ?thesis by blast
qed

lemmas call_log =
  SetTransformations_log SetShaderColor_log SetShaderTexture_log m_basicMeshes_draw_log

lemma RenderTable_log:
  assumes "m_loadedTextures s \<le> int (length (m_textureIDs s))"
  shows "\<exists>es. \<forall>t. same_registries s t \<longrightarrow> RenderTable t = Inr (emit es t)"
  unfolding RenderTable_def using assms by (intro statements_log) (auto intro: call_log)

lemma RenderCologneBottle_log:
  assumes "m_loadedTextures s \<le> int (length (m_textureIDs s))"
  shows "\<exists>es. \<forall>t. same_registries s t \<longrightarrow> RenderCologneBottle t = Inr (emit es t)"
  unfolding RenderCologneBottle_def using assms by (intro statements_log) (auto intro: call_log)

lemma RenderPerfumeBottle_log:
  assumes "m_loadedTextures s \<le> int (length (m_textureIDs s))"
  shows "\<exists>es. \<forall>t. same_registries s t \<longrightarrow> RenderPerfumeBottle t = Inr (emit es t)"
  unfolding RenderPerfumeBottle_def using assms by (intro statements_log) (auto intro: call_log)

lemma RenderItinerary_log:
  "\<exists>es. \<forall>t. same_registries s t \<longrightarrow> RenderItinerary t = Inr (emit es t)"
  unfolding RenderItinerary_def by (intro statements_log) (auto intro: call_log)

lemma Render_stub_log:
  "\<exists>es. \<forall>t. same_registries s t \<longrightarrow> RenderNecklaceBox t = Inr (emit es t)"
  "\<exists>es. \<forall>t. same_registries s t \<longrightarrow> RenderRingBox t = Inr (emit es t)"
  "\<exists>es. \<forall>t. same_registries s t \<longrightarrow> RenderWhiteVowBook t = Inr (emit es t)"
  "\<exists>es. \<forall>t. same_registries s t \<longrightarrow> RenderBrownVowBook t = Inr (emit es t)"
  unfolding RenderNecklaceBox_def RenderRingBox_def RenderWhiteVowBook_def
    RenderBrownVowBook_def
  by (intro statements_log; simp)+

lemma RenderScene_log:
  assumes "m_loadedTextures s \<le> int (length (m_textureIDs s))"
  shows "\<exists>es. \<forall>t. same_registries s t \<longrightarrow> RenderScene t = Inr (emit es t)"
  unfolding RenderScene_def using assms
  by (intro statements_log)
     (auto intro: RenderTable_log RenderCologneBottle_log RenderPerfumeBottle_log
        RenderItinerary_log Render_stub_log)

text \<open>
  C7. With the texture count within the array, \<open>RenderScene\<close> returns, and the calls it
  appends to the log are the same on every state with the same shader-manager pointer,
  texture registry and material list; it leaves these as they were, so a second call
  right after the first appends the same calls again.
\<close>

theorem RenderScene_twice:
  assumes "m_loadedTextures s \<le> int (length (m_textureIDs s))"
  shows "\<exists>es s1 s2.
           RenderScene s = Inr s1 \<and> calls s1 = calls s @ es \<and> same_registries s s1
         \<and> RenderScene s1 = Inr s2 \<and> calls s2 = calls s1 @ es
         \<and> (\<forall>t. same_registries s t \<longrightarrow>
               (\<exists>t'. RenderScene t = Inr t' \<and> calls t' = calls t @ es))"
proof -
  from RenderScene_log [OF assms] obtain es where
    es: "\<forall>t. same_registries s t \<longrightarrow> RenderScene t = Inr (emit es t)" by blast
  then have "RenderScene s = Inr (emit es s)"
    and "RenderScene (emit es s) = Inr (emit es (emit es s))" by simp_all
  moreover have "calls (emit es s) = calls s @ es"
    and "calls (emit es (emit es s)) = calls (emit es s) @ es"
    and "same_registries s (emit es s)"
    by simp_all
  moreover have "\<forall>t. same_registries s t \<longrightarrow>
      (\<exists>t'. RenderScene t = Inr t' \<and> calls t' = calls t @ es)"
    using es by simp
  ultimately show ?thesis by blast
qed

theorem RenderScene_twice_witness:
  "m_loadedTextures loaded_scene \<le> int (length (m_textureIDs loaded_scene))
   \<and> (\<exists>es s1 s2.
           RenderScene loaded_scene = Inr s1 \<and> calls s1 = es
         \<and> RenderScene s1 = Inr s2 \<and> calls s2 = es @ es)"
proof -
  have b: "m_loadedTextures loaded_scene \<le> int (length (m_textureIDs loaded_scene))"
    by (simp add: loaded_scene_def)
  have c: "calls loaded_scene = []" by (simp add: loaded_scene_def)
  from RenderScene_twice [OF b] obtain es s1 s2 where
    "RenderScene loaded_scene = Inr s1" "calls s1 = calls loaded_scene @ es"
    "RenderScene s1 = Inr s2" "calls s2 = calls s1 @ es" by blast
  with b c show ?thesis by auto
qed

subsection \<open>Materials and the shader-manager pointer\<close>

lemma statements_materials:
  assumes "\<And>c s s'. c \<in> set cs \<Longrightarrow> c s = Inr s' \<Longrightarrow> m_objectMaterials s' = m_objectMaterials s"
    and "statements cs s = Inr s'"
  shows "m_objectMaterials s' = m_objectMaterials s"
  using assms
proof (induction cs arbitrary: s)
  case Nil
  then show ?case by simp
next
  case (Cons c cs)
  from Cons.prems(2) obtain s1 where c: "c s = Inr s1" and r: "statements cs s1 = Inr s'"
    by (auto split: sum.splits)
  have "m_objectMaterials s1 = m_objectMaterials s" using Cons.prems(1) [of c s s1] c by simp
  moreover have "m_objectMaterials s' = m_objectMaterials s1"
    using Cons.prems(1) r by (intro Cons.IH) auto
  ultimately show ?case by simp
qed

lemma statements_no_null_dereference:
  assumes "\<And>c s. c \<in> set cs \<Longrightarrow> c s \<noteq> Inl NullPointerDereference"
  shows "statements cs s \<noteq> Inl NullPointerDereference"
  using assms by (induction cs arbitrary: s) (auto split: sum.splits)

lemma FindTextureSlot_loop_error:
  "FindTextureSlot_loop a n t st = Inl e \<Longrightarrow> e = ArrayIndexOutOfBounds"
proof (induction a n t st rule: FindTextureSlot_loop.induct)
  case (1 a n t slot i found)
  then show ?case
    by (simp add: FindTextureSlot_loop.simps [of a n t slot i found] split: if_splits)
qed

lemma BindGLTextures_loop_result:
  "(BindGLTextures_loop i s = Inl e \<longrightarrow> e = ArrayIndexOutOfBounds)
   \<and> (BindGLTextures_loop i s = Inr s' \<longrightarrow> m_objectMaterials s' = m_objectMaterials s)"
proof (induction i s rule: BindGLTextures_loop.induct)
  case (1 i s)
  then show ?case
    by (simp add: BindGLTextures_loop.simps [of i s] split: if_splits)
qed

lemma CreateGLTexture_result:
  "(CreateGLTexture stbi_load filename tg s = Inl e \<longrightarrow> e = ArrayIndexOutOfBounds)
   \<and> (CreateGLTexture stbi_load filename tg s = Inr (b, s') \<longrightarrow>
        m_objectMaterials s' = m_objectMaterials s)"
  by (auto simp: CreateGLTexture_def register_texture_def Let_def split: option.splits if_splits)

lemma SetShaderTexture_result:
  "(SetShaderTexture tg s = Inl e \<longrightarrow> e = ArrayIndexOutOfBounds)
   \<and> (SetShaderTexture tg s = Inr s' \<longrightarrow> m_objectMaterials s' = m_objectMaterials s)"
  by (auto simp: SetShaderTexture_def FindTextureSlot_def Let_def
        split: sum.splits if_splits dest: FindTextureSlot_loop_error)

lemma call_materials:
  "ok (SetTransformations S x y z P) s = Inr s' \<Longrightarrow> m_objectMaterials s' = m_objectMaterials s"
  "ok (SetShaderColor r g b a) s = Inr s' \<Longrightarrow> m_objectMaterials s' = m_objectMaterials s"
  "SetShaderTexture tg s = Inr s' \<Longrightarrow> m_objectMaterials s' = m_objectMaterials s"
  "m_basicMeshes_draw d s = Inr s' \<Longrightarrow> m_objectMaterials s' = m_objectMaterials s"
  "m_basicMeshes_load l s = Inr s' \<Longrightarrow> m_objectMaterials s' = m_objectMaterials s"
  "BindGLTextures s = Inr s' \<Longrightarrow> m_objectMaterials s' = m_objectMaterials s"
  "bReturn_unused (CreateGLTexture stbi_load filename tg) s = Inr s' \<Longrightarrow>
     m_objectMaterials s' = m_objectMaterials s"
  using SetShaderTexture_result [of tg s] BindGLTextures_loop_result [of 0 s]
    CreateGLTexture_result [of stbi_load filename tg s]
  by (auto simp: ok_def SetTransformations_modelView SetShaderColor_emit m_basicMeshes_draw_def
        m_basicMeshes_load_def BindGLTextures_def bReturn_unused_def
        split: sum.splits prod.splits)

lemma call_no_null_dereference:
  "ok f s \<noteq> Inl NullPointerDereference"
  "SetShaderTexture tg s \<noteq> Inl NullPointerDereference"
  "m_basicMeshes_draw d s \<noteq> Inl NullPointerDereference"
  "m_basicMeshes_load l s \<noteq> Inl NullPointerDereference"
  "BindGLTextures s \<noteq> Inl NullPointerDereference"
  "bReturn_unused (CreateGLTexture stbi_load filename tg) s \<noteq> Inl NullPointerDereference"
  using SetShaderTexture_result [of tg s NullPointerDereference]
    BindGLTextures_loop_result [of 0 s NullPointerDereference]
    CreateGLTexture_result [of stbi_load filename tg s NullPointerDereference]
  by (auto simp: ok_def m_basicMeshes_draw_def m_basicMeshes_load_def BindGLTextures_def
        bReturn_unused_def split: sum.splits prod.splits)

lemma Render_materials:
  "RenderTable s = Inr s' \<Longrightarrow> m_objectMaterials s' = m_objectMaterials s"
  "RenderCologneBottle s = Inr s' \<Longrightarrow> m_objectMaterials s' = m_objectMaterials s"
  "RenderPerfumeBottle s = Inr s' \<Longrightarrow> m_objectMaterials s' = m_objectMaterials s"
  "RenderItinerary s = Inr s' \<Longrightarrow> m_objectMaterials s' = m_objectMaterials s"
  "RenderNecklaceBox s = Inr s' \<Longrightarrow> m_objectMaterials s' = m_objectMaterials s"
  "RenderRingBox s = Inr s' \<Longrightarrow> m_objectMaterials s' = m_objectMaterials s"
  "RenderWhiteVowBook s = Inr s' \<Longrightarrow> m_objectMaterials s' = m_objectMaterials s"
  "RenderBrownVowBook s = Inr s' \<Longrightarrow> m_objectMaterials s' = m_objectMaterials s"
  unfolding RenderTable_def RenderCologneBottle_def RenderPerfumeBottle_def RenderItinerary_def
    RenderNecklaceBox_def RenderRingBox_def RenderWhiteVowBook_def RenderBrownVowBook_def
  by (erule statements_materials [rotated]; auto dest: call_materials)+

lemma Render_no_null_dereference:
  "RenderTable s \<noteq> Inl NullPointerDereference"
  "RenderCologneBottle s \<noteq> Inl NullPointerDereference"
  "RenderPerfumeBottle s \<noteq> Inl NullPointerDereference"
  "RenderItinerary s \<noteq> Inl NullPointerDereference"
  "RenderNecklaceBox s \<noteq> Inl NullPointerDereference"
  "RenderRingBox s \<noteq> Inl NullPointerDereference"
  "RenderWhiteVowBook s \<noteq> Inl NullPointerDereference"
  "RenderBrownVowBook s \<noteq> Inl NullPointerDereference"
  unfolding RenderTable_def RenderCologneBottle_def RenderPerfumeBottle_def RenderItinerary_def
    RenderNecklaceBox_def RenderRingBox_def RenderWhiteVowBook_def RenderBrownVowBook_def
  by (rule statements_no_null_dereference; auto simp: call_no_null_dereference)+

lemma RenderScene_materials:
  "RenderScene s = Inr s' \<Longrightarrow> m_objectMaterials s' = m_objectMaterials s"
  unfolding RenderScene_def
  by (erule statements_materials [rotated]) (auto dest: Render_materials)

lemma RenderScene_no_null_dereference: "RenderScene s \<noteq> Inl NullPointerDereference"
  unfolding RenderScene_def
  by (rule statements_no_null_dereference) (auto simp: Render_no_null_dereference)

lemma LoadSceneTextures_materials:
  "LoadSceneTextures stbi_load s = Inr s' \<Longrightarrow> m_objectMaterials s' = m_objectMaterials s"
  unfolding LoadSceneTextures_def
  by (erule statements_materials [rotated]) (auto dest: call_materials)

lemma LoadSceneTextures_no_null_dereference:
  "LoadSceneTextures stbi_load s \<noteq> Inl NullPointerDereference"
  unfolding LoadSceneTextures_def
  by (rule statements_no_null_dereference) (auto simp: call_no_null_dereference)

lemma PrepareScene_materials:
  "PrepareScene stbi_load s = Inr s' \<Longrightarrow> m_objectMaterials s' = m_objectMaterials s"
  unfolding PrepareScene_def
  by (erule statements_materials [rotated])
     (auto dest: call_materials LoadSceneTextures_materials)

lemma PrepareScene_no_null_dereference:
  "PrepareScene stbi_load s \<noteq> Inl NullPointerDereference"
  unfolding PrepareScene_def
  by (rule statements_no_null_dereference)
     (auto simp: call_no_null_dereference LoadSceneTextures_no_null_dereference)

lemma LoadSceneTextures_loads:
  assumes "loads_succeed stbi_load scene_textures s = Some s1"
  shows "LoadSceneTextures stbi_load s = BindGLTextures s1"
  using assms unfolding scene_textures_def LoadSceneTextures_def
  by (auto simp: bReturn_unused_def split: sum.splits prod.splits bool.splits)

text \<open>
  C10. With an empty material list \<open>SetShaderMaterial\<close> returns with the state as it was,
  whatever the tag and the shader-manager pointer: it writes no uniform and does not
  dereference the pointer. \<open>PrepareScene\<close> and \<open>RenderScene\<close> leave the material list as
  it is and never dereference a null pointer, so in a scene whose list starts empty the
  dereference in \<open>SetShaderMaterial\<close> is not reached.
\<close>

theorem SetShaderMaterial_empty_materials:
  "(m_objectMaterials s = [] \<longrightarrow> SetShaderMaterial material materialTag s = Inr s)
   \<and> (PrepareScene stbi_load s = Inr s' \<longrightarrow> m_objectMaterials s' = m_objectMaterials s)
   \<and> (RenderScene s = Inr s' \<longrightarrow> m_objectMaterials s' = m_objectMaterials s)
   \<and> PrepareScene stbi_load s \<noteq> Inl NullPointerDereference
   \<and> RenderScene s \<noteq> Inl NullPointerDereference"
  using PrepareScene_materials [of stbi_load s s'] RenderScene_materials [of s s']
    PrepareScene_no_null_dereference [of stbi_load s] RenderScene_no_null_dereference [of s]
  by (simp add: SetShaderMaterial_def)

theorem SetShaderMaterial_empty_materials_witness:
  "m_objectMaterials null_shader_scene = []
   \<and> SetShaderMaterial plain_material ''gold'' null_shader_scene = Inr null_shader_scene
   \<and> (\<exists>s'. PrepareScene rgb_files empty_scene = Inr s' \<and> m_objectMaterials s' = [])
   \<and> (\<exists>s'. RenderScene null_shader_scene = Inr s' \<and> m_objectMaterials s' = [])"
proof -
  have e: "m_objectMaterials null_shader_scene = []"
    by (simp add: null_shader_scene_def loaded_scene_def)
  have e': "m_objectMaterials empty_scene = []" by (simp add: empty_scene_def)
  have "\<exists>s1. loads_succeed rgb_files scene_textures empty_scene = Some s1"
    by (simp add: scene_textures_def rgb_files_def empty_scene_def CreateGLTexture_def
          register_texture_def emit_def Let_def)
  then obtain s1 where l: "loads_succeed rgb_files scene_textures empty_scene = Some s1" ..
  have "m_loadedTextures s1 \<le> int (length (m_textureIDs s1))"
    using loads_succeed_registry [OF l] by (simp add: empty_scene_def scene_textures_def)
  with BindGLTextures_loop_returns [of 0 s1] obtain es where
    "BindGLTextures s1 = Inr (emit es s1)" by (auto simp: BindGLTextures_def)
  with LoadSceneTextures_loads [OF l] have
    "LoadSceneTextures rgb_files empty_scene = Inr (emit es s1)" by simp
  then have "\<exists>s'. PrepareScene rgb_files empty_scene = Inr s'"
    by (simp add: PrepareScene_def m_basicMeshes_load_def)
  then obtain p where p: "PrepareScene rgb_files empty_scene = Inr p" ..
  have "m_loadedTextures null_shader_scene \<le> int (length (m_textureIDs null_shader_scene))"
    by (simp add: null_shader_scene_def loaded_scene_def)
  from RenderScene_log [OF this] obtain r where
    r: "RenderScene null_shader_scene = Inr r" by (meson same_registries_refl)
  from SetShaderMaterial_empty_materials
      [of null_shader_scene plain_material "''gold''" rgb_files r]
    SetShaderMaterial_empty_materials [of empty_scene plain_material "''gold''" rgb_files p]
    e e' p r
  show ?thesis by simp
qed

text \<open>
  C5. On a state with a null shader manager and a material list that is not empty,
  \<open>SetTransformations\<close>, \<open>SetShaderColor\<close>, \<open>SetShaderTexture\<close> and \<open>SetTextureUVScale\<close>
  test the pointer and leave the state as it is, while \<open>SetShaderMaterial\<close>, which has
  no such test, dereferences the null pointer, with a tag that matches an entry and with
  one that matches none.
\<close>

theorem SetShaderMaterial_null_shader:
  "SetTransformations (30, 1, 30) 0 0 0 (0, 0, 0) null_shader_material_scene
     = null_shader_material_scene
   \<and> SetShaderColor 1 0 0 1 null_shader_material_scene = null_shader_material_scene
   \<and> SetShaderTexture ''marble'' null_shader_material_scene = Inr null_shader_material_scene
   \<and> SetTextureUVScale 1 1 null_shader_material_scene = null_shader_material_scene
   \<and> SetShaderMaterial material ''gold'' null_shader_material_scene = Inl NullPointerDereference
   \<and> SetShaderMaterial material ''wood'' null_shader_material_scene = Inl NullPointerDereference"
  by (simp add: null_shader_material_scene_def material_scene_def loaded_scene_def
        SetTransformations_modelView SetShaderColor_emit SetShaderTexture_def
        SetTextureUVScale_def SetShaderMaterial_def FindMaterial_def)

subsection \<open>Transformation, shader state and draw calls of a frame\<close>

lemma statements_append:
  "statements (cs @ cs') s =
     (case statements cs s of Inl e \<Rightarrow> Inl e | Inr s' \<Rightarrow> statements cs' s')"
  by (induction cs arbitrary: s) (auto split: sum.splits)

lemma Render_routine_calls:
  "RenderTable = statements (map run_call RenderTable_calls)"
  "RenderCologneBottle = statements (map run_call RenderCologneBottle_calls)"
  "RenderPerfumeBottle = statements (map run_call RenderPerfumeBottle_calls)"
  "RenderItinerary = statements (map run_call RenderItinerary_calls)"
  "RenderNecklaceBox = statements (map run_call RenderNecklaceBox_calls)"
  "RenderRingBox = statements (map run_call RenderRingBox_calls)"
  "RenderWhiteVowBook = statements (map run_call RenderWhiteVowBook_calls)"
  "RenderBrownVowBook = statements (map run_call RenderBrownVowBook_calls)"
  by (simp_all add: RenderTable_def RenderTable_calls_def
        RenderCologneBottle_def RenderCologneBottle_calls_def
        RenderPerfumeBottle_def RenderPerfumeBottle_calls_def
        RenderItinerary_def RenderItinerary_calls_def
        RenderNecklaceBox_def RenderNecklaceBox_calls_def
        RenderRingBox_def RenderRingBox_calls_def
        RenderWhiteVowBook_def RenderWhiteVowBook_calls_def
        RenderBrownVowBook_def RenderBrownVowBook_calls_def)

lemma RenderScene_frame_calls: "RenderScene = statements (map run_call RenderScene_calls)"
proof
  fix s
  show "RenderScene s = statements (map run_call RenderScene_calls) s"
    by (simp add: RenderScene_def RenderScene_calls_def Render_routine_calls statements_append
          split: sum.splits)
qed

lemma Render_routines_in_groups:
  "grouped Between_groups RenderTable_calls"
  "grouped Between_groups RenderCologneBottle_calls"
  "grouped Between_groups RenderPerfumeBottle_calls"
  "grouped Between_groups RenderItinerary_calls"
  "grouped Between_groups RenderNecklaceBox_calls"
  "grouped Between_groups RenderRingBox_calls"
  "grouped Between_groups RenderWhiteVowBook_calls"
  "grouped Between_groups RenderBrownVowBook_calls"
  by (simp_all add: RenderTable_calls_def RenderCologneBottle_calls_def
        RenderPerfumeBottle_calls_def RenderItinerary_calls_def RenderNecklaceBox_calls_def
        RenderRingBox_calls_def RenderWhiteVowBook_calls_def RenderBrownVowBook_calls_def
        further_part_def)

text \<open>
  C6, as stated, fails: \<open>RenderScene\<close> runs the calls of \<open>RenderScene_calls\<close>, and among
  them there is a draw call with no call of \<open>SetTransformations\<close> since the previous draw
  call, whatever the state and the shader-manager pointer.
\<close>

theorem RenderScene_fresh_triples_counterexample:
  "RenderScene = statements (map run_call RenderScene_calls)
   \<and> fresh_triples False False RenderScene_calls = False"
  using RenderScene_frame_calls
  by (simp add: RenderScene_calls_def RenderTable_calls_def RenderCologneBottle_calls_def
        RenderPerfumeBottle_calls_def RenderItinerary_calls_def RenderNecklaceBox_calls_def
        RenderRingBox_calls_def RenderWhiteVowBook_calls_def RenderBrownVowBook_calls_def)

text \<open>
  C6, amended. Every render routine runs its list of calls, and every list, from its
  start, is a sequence of groups: every draw call is preceded in its own routine by a
  call of \<open>SetTransformations\<close> and, after that, by a shader-state call; a group starts
  with a fresh (transformation, shader state, draw) triple and goes on with draw calls
  for parts of the same mesh not yet drawn in the group, which keep the transformation
  and have at most one new shader-state call each. The calls of the frame, which
  \<open>RenderScene\<close> runs, are such a sequence as well.
\<close>

theorem Render_routines_grouped:
  "RenderTable = statements (map run_call RenderTable_calls)
   \<and> grouped Between_groups RenderTable_calls
   \<and> RenderCologneBottle = statements (map run_call RenderCologneBottle_calls)
   \<and> grouped Between_groups RenderCologneBottle_calls
   \<and> RenderPerfumeBottle = statements (map run_call RenderPerfumeBottle_calls)
   \<and> grouped Between_groups RenderPerfumeBottle_calls
   \<and> RenderItinerary = statements (map run_call RenderItinerary_calls)
   \<and> grouped Between_groups RenderItinerary_calls
   \<and> RenderNecklaceBox = statements (map run_call RenderNecklaceBox_calls)
   \<and> grouped Between_groups RenderNecklaceBox_calls
   \<and> RenderRingBox = statements (map run_call RenderRingBox_calls)
   \<and> grouped Between_groups RenderRingBox_calls
   \<and> RenderWhiteVowBook = statements (map run_call RenderWhiteVowBook_calls)
   \<and> grouped Between_groups RenderWhiteVowBook_calls
   \<and> RenderBrownVowBook = statements (map run_call RenderBrownVowBook_calls)
   \<and> grouped Between_groups RenderBrownVowBook_calls
   \<and> RenderScene = statements (map run_call RenderScene_calls)
   \<and> grouped Between_groups RenderScene_calls"
proof -
  have "grouped Between_groups RenderScene_calls"
    by (simp add: RenderScene_calls_def RenderTable_calls_def RenderCologneBottle_calls_def
          RenderPerfumeBottle_calls_def RenderItinerary_calls_def RenderNecklaceBox_calls_def
          RenderRingBox_calls_def RenderWhiteVowBook_calls_def RenderBrownVowBook_calls_def
          further_part_def)
  with Render_routine_calls Render_routines_in_groups RenderScene_frame_calls
  show ?thesis by blast
qed

end
